theory Spec2Isabelle
  imports Complex_Main "HOL-Library.Word"
begin

section \<open>Vortex statistics: the aggregation engine of \<open>VortexStatistics::process\<close>\<close>

text \<open>
  The development embeds \<open>VortexStatistics::process\<close> and the lambdas it defines
  (\<open>assignMin\<close>, \<open>assignMax\<close>, \<open>assignExtremum\<close>, \<open>indexCallback\<close>), statement by
  statement. Number model: \<open>int\<close> columns are mathematical integers, \<open>size_t\<close> is a
  64-bit word where the source computes \<open>numGroups\<close> and a natural number afterwards
  (the casts between \<open>size_t\<close> and \<open>int\<close> are exact for counts below \<open>2^31\<close>), and
  \<open>float\<close>/\<open>double\<close> values are real numbers. Two computations get more of the
  machine: the \<open>double\<close> subtraction whose result is cast to \<open>size_t\<close> is rounded to
  53 significant bits before the cast, and the aspect ratio, which the source divides
  without a guard, tests with \<open>std::isfinite\<close> and stores in a \<open>float\<close> column,
  carries the IEEE special values and overflows to an infinity at the range of
  \<open>double\<close> (the quotient) and of \<open>float\<close> (the stored value). Everywhere else values
  are kept exact.
\<close>

subsection \<open>Failures\<close>

text \<open>
  \<open>OutOfRange\<close> is the \<open>std::out_of_range\<close> exception of \<open>std::vector::at\<close>.
  \<open>NullPointer\<close> is a call through a \<open>ColumnPair\<close> pointer that was never set,
  \<open>UncheckedIndex\<close> an \<open>operator[]\<close> or raw-pointer access outside the container
  (both undefined behaviour in C++), \<open>AssertionFailed\<close> a failing \<open>ivwAssert\<close> in a
  build that checks assertions.
\<close>

datatype error = OutOfRange | NullPointer | UncheckedIndex | AssertionFailed

definition bindE :: "error + 'a \<Rightarrow> ('a \<Rightarrow> error + 'b) \<Rightarrow> error + 'b" where
  "bindE m f = (case m of Inl e \<Rightarrow> Inl e | Inr x \<Rightarrow> f x)"

text \<open>A block of statements: each runs on the state the previous one left.\<close>

primrec seqE :: "('s \<Rightarrow> error + 's) list \<Rightarrow> 's \<Rightarrow> error + 's" where
  "seqE [] s = Inr s"
| "seqE (f # fs) s = (case f s of Inl e \<Rightarrow> Inl e | Inr s' \<Rightarrow> seqE fs s')"

text \<open>A counted \<open>for\<close> loop over the given index values.\<close>

definition forE :: "'i list \<Rightarrow> ('i \<Rightarrow> 's \<Rightarrow> error + 's) \<Rightarrow> 's \<Rightarrow> error + 's" where
  "forE ixs body = seqE (map body ixs)"

subsection \<open>Floating-point values with the IEEE specials\<close>

datatype fval = Finite real | PosInf | NegInf | NaN

fun isfinite :: "fval \<Rightarrow> bool" where
  "isfinite (Finite x) = True"
| "isfinite PosInf = False"
| "isfinite NegInf = False"
| "isfinite NaN = False"

text \<open>IEEE division and addition on the extended values (one zero, no rounding).\<close>

fun fdiv :: "fval \<Rightarrow> fval \<Rightarrow> fval" where
  "fdiv (Finite a) (Finite b) =
     (if b \<noteq> 0 then Finite (a / b)
      else if a = 0 then NaN else if 0 < a then PosInf else NegInf)"
| "fdiv (Finite a) PosInf = Finite 0"
| "fdiv (Finite a) NegInf = Finite 0"
| "fdiv PosInf (Finite b) = (if 0 \<le> b then PosInf else NegInf)"
| "fdiv NegInf (Finite b) = (if 0 \<le> b then NegInf else PosInf)"
| "fdiv PosInf PosInf = NaN"
| "fdiv PosInf NegInf = NaN"
| "fdiv NegInf PosInf = NaN"
| "fdiv NegInf NegInf = NaN"
| "fdiv NaN y = NaN"
| "fdiv x NaN = NaN"

fun fadd :: "fval \<Rightarrow> fval \<Rightarrow> fval" where
  "fadd (Finite a) (Finite b) = Finite (a + b)"
| "fadd (Finite a) PosInf = PosInf"
| "fadd (Finite a) NegInf = NegInf"
| "fadd PosInf (Finite b) = PosInf"
| "fadd NegInf (Finite b) = NegInf"
| "fadd PosInf PosInf = PosInf"
| "fadd NegInf NegInf = NegInf"
| "fadd PosInf NegInf = NaN"
| "fadd NegInf PosInf = NaN"
| "fadd NaN y = NaN"
| "fadd x NaN = NaN"

text \<open>
  The range of the two formats. An exact result of magnitude \<open>DBL_LIMIT\<close> or more
  (half a unit in the last place beyond the largest \<open>double\<close>) rounds to an infinity;
  a value of magnitude \<open>FLT_LIMIT\<close> or more becomes an infinity when it is converted
  to \<open>float\<close>. \<open>to_double\<close> is applied to the exact result of a \<open>double\<close>
  operation, \<open>to_float\<close> where a \<open>double\<close> is stored in a \<open>float\<close>. A value in
  range is kept as it is: the significand is not rounded and small values do not
  underflow.
\<close>

definition DBL_LIMIT :: real where
  "DBL_LIMIT = 2 ^ 1024 - 2 ^ 970"

definition FLT_LIMIT :: real where
  "FLT_LIMIT = 2 ^ 128 - 2 ^ 103"

fun overflow_to :: "real \<Rightarrow> fval \<Rightarrow> fval" where
  "overflow_to limit (Finite x) =
     (if limit \<le> \<bar>x\<bar> then (if 0 < x then PosInf else NegInf) else Finite x)"
| "overflow_to limit PosInf = PosInf"
| "overflow_to limit NegInf = NegInf"
| "overflow_to limit NaN = NaN"

definition to_double :: "fval \<Rightarrow> fval" where
  "to_double = overflow_to DBL_LIMIT"

definition to_float :: "fval \<Rightarrow> fval" where
  "to_float = overflow_to FLT_LIMIT"

text \<open>
  Rounding to the nearest \<open>double\<close>, ties to the even significand: the unit in the
  last place of \<open>x\<close> is 2 to the power \<open>\<lfloor>log 2 \<bar>x\<bar>\<rfloor> - 52\<close>, and \<open>x\<close> becomes the
  nearest multiple of it (for magnitudes in the normal range of the format).
\<close>

definition round_half_even :: "real \<Rightarrow> int" where
  "round_half_even x =
     (let f = \<lfloor>x\<rfloor>
      in if x - of_int f < 1 / 2 then f
         else if 1 / 2 < x - of_int f then f + 1
         else if even f then f else f + 1)"

definition double_round :: "real \<Rightarrow> real" where
  "double_round x =
     (if x = 0 then 0
      else let ulp = 2 powr (of_int \<lfloor>log 2 \<bar>x\<bar>\<rfloor> - 52)
           in of_int (round_half_even (x / ulp)) * ulp)"

subsection \<open>The accumulator lambdas\<close>

text \<open>
  \<^verbatim>\<open>auto assignMin = [](auto& vecVal, auto val) {
      if (vecVal == 0) vecVal = val;
      vecVal = std::min(vecVal, val); };\<close>
  The model returns the new content of \<open>vecVal\<close>. \<open>std::min(a, b)\<close> is
  \<open>b < a ? b : a\<close> and \<open>std::max(a, b)\<close> is \<open>a < b ? b : a\<close>.
\<close>

definition std_min :: "'a::linorder \<Rightarrow> 'a \<Rightarrow> 'a" where
  "std_min a b = (if b < a then b else a)"

definition std_max :: "'a::linorder \<Rightarrow> 'a \<Rightarrow> 'a" where
  "std_max a b = (if a < b then b else a)"

definition assignMin :: "'a::{zero,linorder} \<Rightarrow> 'a \<Rightarrow> 'a" where
  "assignMin vecVal val =
     (let vecVal1 = (if vecVal = 0 then val else vecVal) in std_min vecVal1 val)"

definition assignMax :: "'a::{zero,linorder} \<Rightarrow> 'a \<Rightarrow> 'a" where
  "assignMax vecVal val =
     (let vecVal1 = (if vecVal = 0 then val else vecVal) in std_max vecVal1 val)"

definition assignExtremum :: "real \<Rightarrow> real \<Rightarrow> real" where
  "assignExtremum vecVal val =
     (if vecVal = 0 then val else if \<bar>val\<bar> > \<bar>vecVal\<bar> then val else vecVal)"

subsection \<open>Inputs\<close>

type_synonym size3 = "nat \<times> nat \<times> nat"

text \<open>\<open>VolumeRAM::posToIndex\<close>: x runs fastest.\<close>

definition posToIndex :: "size3 \<Rightarrow> size3 \<Rightarrow> nat" where
  "posToIndex pos dims =
     (case pos of (x, y, z) \<Rightarrow> case dims of (dx, dy, dz) \<Rightarrow> x + y * dx + z * dx * dy)"

text \<open>The positions \<open>util::forEachVoxel\<close> visits: z outermost, x innermost.\<close>

definition forEachVoxel :: "size3 \<Rightarrow> size3 list" where
  "forEachVoxel dims =
     (case dims of (dx, dy, dz) \<Rightarrow>
        concat (map (\<lambda>z. concat (map (\<lambda>y. map (\<lambda>x. (x, y, z)) [0..<dx]) [0..<dy])) [0..<dz]))"

text \<open>
  A mask volume: its dimensions, the voxel values already converted by
  \<open>static_cast<int>\<close>, and \<open>dataMap_.dataRange.y\<close>.
\<close>

record MaskVolume =
  mDimensions :: size3
  maskData :: "int list"
  dataRangeY :: real

type_synonym dvec4 = "real \<times> real \<times> real \<times> real"

text \<open>Component \<open>s\<close> of a \<open>dvec4\<close>; a data format has at most four components.\<close>

definition component :: "dvec4 \<Rightarrow> nat \<Rightarrow> real" where
  "component v s = (case v of (a, b, c, d) \<Rightarrow>
     if s = 0 then a else if s = 1 then b else if s = 2 then c else d)"

record ScalarVolume =
  sDimensions :: size3
  components :: nat
  scalarData :: "dvec4 list"

definition getAsDVec4 :: "ScalarVolume \<Rightarrow> size3 \<Rightarrow> error + dvec4" where
  "getAsDVec4 vol pos =
     (let i = posToIndex pos (sDimensions vol)
      in if i < length (scalarData vol) then Inr (scalarData vol ! i) else Inl UncheckedIndex)"

datatype Turning = Clockwise | CounterClockwise | Unknown

text \<open>
  Modelled from the spec: the \<open>Vortex\<close> record and the \<open>VortexSet\<close> hierarchy are
  declared outside the given sources. A vortex record carries its depth, centre,
  radii and rotation (the centre is passed to \<open>glm::distance\<close> together with a
  \<open>dvec2\<close>; the radii are taken to be \<open>double\<close> as well); the hierarchy exposes the total group count, the records of each
  group in storage order, and the parent group of a record by its position in the whole
  storage (\<open>getParentGroup(vortex - begin())\<close>, negative for no parent).
\<close>

record Vortex =
  heightSlice :: nat
  center :: "real \<times> real"
  minRadius :: real
  maxRadius :: real
  avgRadius :: real
  rotation :: Turning

record VortexSet =
  groups :: "Vortex list list"
  getParentGroup :: "nat \<Rightarrow> int"

definition vortexNumGroups :: "VortexSet \<Rightarrow> 64 word" where
  "vortexNumGroups vs = of_nat (length (groups vs))"

text \<open>Position of the first record of a group in the whole storage.\<close>

definition groupOffset :: "VortexSet \<Rightarrow> nat \<Rightarrow> nat" where
  "groupOffset vs g = sum_list (map length (take g (groups vs)))"

text \<open>
  \<open>std::find_if\<close> over \<open>beginGroup(group)\<close> .. \<open>endGroup(group)\<close>: the position in
  the group and the record of the first match.
\<close>

fun find_if :: "('a \<Rightarrow> bool) \<Rightarrow> 'a list \<Rightarrow> (nat \<times> 'a) option" where
  "find_if P [] = None"
| "find_if P (x # xs) =
     (if P x then Some (0, x)
      else case find_if P xs of None \<Rightarrow> None | Some (i, y) \<Rightarrow> Some (Suc i, y))"

text \<open>\<open>glm::distance\<close> on \<open>dvec2\<close>.\<close>

definition distance :: "real \<times> real \<Rightarrow> real \<times> real \<Rightarrow> real" where
  "distance p q = sqrt ((fst p - fst q)\<^sup>2 + (snd p - snd q)\<^sup>2)"

subsection \<open>The two data frames\<close>

text \<open>
  A \<open>ColumnPair<T>\<close> holds two pointers to column containers: the column of the
  per-group frame (\<open>perEnsembleData\<close>, one row per group) and the column of the
  per-group-per-time frame (\<open>perVortexData\<close>, row \<open>numGroups * time + group\<close>).
  The struct is declared outside the given sources; \<open>MakeColumn::make\<close> shows its two
  members and that they are addresses. \<open>None\<close> is a pointer that was never set.
\<close>

record 'a ColumnPair =
  PerGroup :: "'a list option"
  PerGroupPerTime :: "'a list option"

record ScalarColumns =
  Surface :: "real ColumnPair"
  Average :: "real ColumnPair"
  Min_s :: "real ColumnPair"
  Max_s :: "real ColumnPair"

record SurfaceColumns =
  Extreme :: "real ColumnPair"
  Min_t :: "real ColumnPair"
  Max_t :: "real ColumnPair"

datatype warning =
  DimensionsNotMatching size3 nat size3 nat size3
| VortexNotOnSeedDepth

text \<open>
  The local variables of one run: every column of the two frames under the name the
  source gives it, the columns the loop-local copies \<open>surf\<close> created
  (\<open>surfColumns\<close>), \<open>prevCenters\<close>, and the warnings logged so far.
\<close>

record Frames =
  colEnsemble :: "int ColumnPair"
  colGroup :: "int ColumnPair"
  colTimeStep :: "int list"
  colNumVoxels :: "int ColumnPair"
  colNumTopVoxels :: "int ColumnPair"
  colMaxDepth :: "int ColumnPair"
  colAspectRatio :: "fval ColumnPair"
  colAvgRadius :: "real ColumnPair"
  colLifeTime :: "int list"
  colStartTime :: "int list"
  colRotation :: "nat list"
  colCenterX :: "real list"
  colCenterY :: "real list"
  colStartX :: "real list"
  colStartY :: "real list"
  colEndX :: "real list"
  colEndY :: "real list"
  colTravel :: "real list"
  colScalars :: "ScalarColumns list"
  colTopScalars :: "SurfaceColumns list"
  surfColumns :: "SurfaceColumns list"
  prevCenters :: "(real \<times> real) list"
  logged :: "warning list"

text \<open>
  A reference to a \<open>ColumnPair\<close> variable and a reference to one column container:
  how to read it from the run's variables (which fails where the source indexes a vector
  outside its size or follows an unset pointer) and how to write it back.
\<close>

type_synonym 'a pairref =
  "(Frames \<Rightarrow> error + 'a ColumnPair) \<times> (('a ColumnPair \<Rightarrow> 'a ColumnPair) \<Rightarrow> Frames \<Rightarrow> Frames)"

type_synonym 'a column = "(Frames \<Rightarrow> error + 'a list) \<times> ('a list \<Rightarrow> Frames \<Rightarrow> Frames)"

definition pairOf ::
  "(Frames \<Rightarrow> 'a ColumnPair) \<Rightarrow> (('a ColumnPair \<Rightarrow> 'a ColumnPair) \<Rightarrow> Frames \<Rightarrow> Frames) \<Rightarrow> 'a pairref" where
  "pairOf get upd = (\<lambda>s. Inr (get s), upd)"

text \<open>\<open>colScalars[sc].field\<close> and \<open>colTopScalars[sc].field\<close>.\<close>

definition scalarOf ::
  "nat \<Rightarrow> (ScalarColumns \<Rightarrow> real ColumnPair) \<Rightarrow>
   ((real ColumnPair \<Rightarrow> real ColumnPair) \<Rightarrow> ScalarColumns \<Rightarrow> ScalarColumns) \<Rightarrow> real pairref" where
  "scalarOf sc field field_upd =
     (\<lambda>s. if sc < length (colScalars s) then Inr (field (colScalars s ! sc))
           else Inl UncheckedIndex,
      \<lambda>h. colScalars_update (\<lambda>cs. cs[sc := field_upd h (cs ! sc)]))"

definition topScalarOf ::
  "nat \<Rightarrow> (SurfaceColumns \<Rightarrow> real ColumnPair) \<Rightarrow>
   ((real ColumnPair \<Rightarrow> real ColumnPair) \<Rightarrow> SurfaceColumns \<Rightarrow> SurfaceColumns) \<Rightarrow> real pairref" where
  "topScalarOf sc field field_upd =
     (\<lambda>s. if sc < length (colTopScalars s) then Inr (field (colTopScalars s ! sc))
           else Inl UncheckedIndex,
      \<lambda>h. colTopScalars_update (\<lambda>cs. cs[sc := field_upd h (cs ! sc)]))"

definition deref :: "'a list option \<Rightarrow> error + 'a list" where
  "deref p = (case p of None \<Rightarrow> Inl NullPointer | Some xs \<Rightarrow> Inr xs)"

definition perGroup :: "'a pairref \<Rightarrow> 'a column" where
  "perGroup r =
     (\<lambda>s. bindE (fst r s) (\<lambda>p. deref (PerGroup p)),
      \<lambda>xs. snd r (PerGroup_update (\<lambda>_. Some xs)))"

definition perGroupPerTime :: "'a pairref \<Rightarrow> 'a column" where
  "perGroupPerTime r =
     (\<lambda>s. bindE (fst r s) (\<lambda>p. deref (PerGroupPerTime p)),
      \<lambda>xs. snd r (PerGroupPerTime_update (\<lambda>_. Some xs)))"

text \<open>A column held by reference (\<open>std::vector<T>&\<close>) or a local vector.\<close>

definition vec ::
  "(Frames \<Rightarrow> 'a list) \<Rightarrow> (('a list \<Rightarrow> 'a list) \<Rightarrow> Frames \<Rightarrow> Frames) \<Rightarrow> 'a column" where
  "vec get upd = (\<lambda>s. Inr (get s), \<lambda>xs. upd (\<lambda>_. xs))"

text \<open>\<open>col->at(i)\<close>: read, and read-modify-write. The index is checked.\<close>

definition at_get :: "'a column \<Rightarrow> nat \<Rightarrow> Frames \<Rightarrow> error + 'a" where
  "at_get col i s =
     bindE (fst col s) (\<lambda>xs. if i < length xs then Inr (xs ! i) else Inl OutOfRange)"

definition at_mod :: "'a column \<Rightarrow> nat \<Rightarrow> ('a \<Rightarrow> 'a) \<Rightarrow> Frames \<Rightarrow> error + Frames" where
  "at_mod col i f s =
     bindE (fst col s) (\<lambda>xs. if i < length xs then Inr (snd col (xs[i := f (xs ! i)]) s)
                            else Inl OutOfRange)"

definition at_set :: "'a column \<Rightarrow> nat \<Rightarrow> 'a \<Rightarrow> Frames \<Rightarrow> error + Frames" where
  "at_set col i v = at_mod col i (\<lambda>_. v)"

text \<open>\<open>dst->at(di) = f(dst->at(di), src->at(si))\<close>, as in \<open>+=\<close> and the assign lambdas.\<close>

definition at_from ::
  "('a \<Rightarrow> 'b \<Rightarrow> 'a) \<Rightarrow> 'a column \<Rightarrow> nat \<Rightarrow> 'b column \<Rightarrow> nat \<Rightarrow> Frames \<Rightarrow> error + Frames" where
  "at_from f dst di src si s = bindE (at_get src si s) (\<lambda>v. at_mod dst di (\<lambda>x. f x v) s)"

text \<open>\<open>col[i]\<close>: read, and read-modify-write. The index is not checked by the source.\<close>

definition ix_get :: "'a column \<Rightarrow> nat \<Rightarrow> Frames \<Rightarrow> error + 'a" where
  "ix_get col i s =
     bindE (fst col s) (\<lambda>xs. if i < length xs then Inr (xs ! i) else Inl UncheckedIndex)"

definition ix_mod :: "'a column \<Rightarrow> nat \<Rightarrow> ('a \<Rightarrow> 'a) \<Rightarrow> Frames \<Rightarrow> error + Frames" where
  "ix_mod col i f s =
     bindE (fst col s) (\<lambda>xs. if i < length xs then Inr (snd col (xs[i := f (xs ! i)]) s)
                            else Inl UncheckedIndex)"

definition ix_set :: "'a column \<Rightarrow> nat \<Rightarrow> 'a \<Rightarrow> Frames \<Rightarrow> error + Frames" where
  "ix_set col i v = ix_mod col i (\<lambda>_. v)"

abbreviation "colGroupR \<equiv> pairOf colGroup colGroup_update"
abbreviation "colNumVoxelsR \<equiv> pairOf colNumVoxels colNumVoxels_update"
abbreviation "colNumTopVoxelsR \<equiv> pairOf colNumTopVoxels colNumTopVoxels_update"
abbreviation "colMaxDepthR \<equiv> pairOf colMaxDepth colMaxDepth_update"
abbreviation "colAspectRatioR \<equiv> pairOf colAspectRatio colAspectRatio_update"
abbreviation "colAvgRadiusR \<equiv> pairOf colAvgRadius colAvgRadius_update"
abbreviation "colTimeStepR \<equiv> vec colTimeStep colTimeStep_update"
abbreviation "colLifeTimeR \<equiv> vec colLifeTime colLifeTime_update"
abbreviation "colStartTimeR \<equiv> vec colStartTime colStartTime_update"
abbreviation "colRotationR \<equiv> vec colRotation colRotation_update"
abbreviation "colCenterXR \<equiv> vec colCenterX colCenterX_update"
abbreviation "colCenterYR \<equiv> vec colCenterY colCenterY_update"
abbreviation "colStartXR \<equiv> vec colStartX colStartX_update"
abbreviation "colStartYR \<equiv> vec colStartY colStartY_update"
abbreviation "colEndXR \<equiv> vec colEndX colEndX_update"
abbreviation "colEndYR \<equiv> vec colEndY colEndY_update"
abbreviation "colTravelR \<equiv> vec colTravel colTravel_update"
abbreviation "prevCentersR \<equiv> vec prevCenters prevCenters_update"
abbreviation "colScalarsSurface sc \<equiv> scalarOf sc Surface Surface_update"
abbreviation "colScalarsAverage sc \<equiv> scalarOf sc Average Average_update"
abbreviation "colScalarsMin sc \<equiv> scalarOf sc Min_s Min_s_update"
abbreviation "colScalarsMax sc \<equiv> scalarOf sc Max_s Max_s_update"
abbreviation "colTopScalarsExtreme sc \<equiv> topScalarOf sc Extreme Extreme_update"
abbreviation "colTopScalarsMin sc \<equiv> topScalarOf sc Min_t Min_t_update"
abbreviation "colTopScalarsMax sc \<equiv> topScalarOf sc Max_t Max_t_update"

subsection \<open>The voxel pass: \<open>indexCallback\<close>\<close>

definition maskAt :: "MaskVolume \<Rightarrow> nat \<Rightarrow> error + int" where
  "maskAt maskVolume i =
     (if i < length (maskData maskVolume) then Inr (maskData maskVolume ! i)
      else Inl UncheckedIndex)"

text \<open>
  The body of the lambda, in the order of the source. \<open>SEED_DEPTH\<close> is the constant
  \<open>AssembleWindingAngle::SEED_DEPTH\<close>, declared outside the given sources and taken
  as a parameter. Both increments of the voxel count go to the \<open>PerGroup\<close> column, as
  the source writes them.
\<close>

definition indexCallback ::
  "nat \<Rightarrow> nat \<Rightarrow> nat \<Rightarrow> nat \<Rightarrow> nat \<Rightarrow> MaskVolume \<Rightarrow> size3 \<Rightarrow> ScalarVolume \<Rightarrow> ScalarVolume \<Rightarrow>
   size3 \<Rightarrow> Frames \<Rightarrow> error + Frames" where
  "indexCallback SEED_DEPTH numGroups numScalars numTopScalars time maskVolume volumeDims
       scalarVol topScalarVol idx s =
     bindE (maskAt maskVolume (posToIndex idx volumeDims)) (\<lambda>group.
       if group \<le> 0 then Inr s
       else if group \<ge> int numGroups then Inr s
       else
         let group = nat (group - 1);
             idxGroupTime = numGroups * time + group;
             z = snd (snd idx)
         in seqE [
           ix_mod colStartTimeR group (\<lambda>v. std_min v (int time)),
           (\<lambda>s. bindE (ix_get colStartTimeR group s) (\<lambda>start.
                   ix_set colLifeTimeR group (int time - start) s)),
           at_mod (perGroup colNumVoxelsR) group (\<lambda>v. v + 1),
           at_mod (perGroup colNumVoxelsR) idxGroupTime (\<lambda>v. v + 1),
           at_mod (perGroup colMaxDepthR) group (\<lambda>v. assignMax v (int z)),
           at_mod (perGroupPerTime colMaxDepthR) idxGroupTime (\<lambda>v. assignMax v (int z)),
           (\<lambda>s. bindE (getAsDVec4 scalarVol idx) (\<lambda>scalarSample. seqE [
              forE [0..<numScalars] (\<lambda>sc. seqE [
                at_mod (perGroup (colScalarsAverage sc)) group
                  (\<lambda>v. v + component scalarSample sc),
                at_mod (perGroupPerTime (colScalarsAverage sc)) idxGroupTime
                  (\<lambda>v. v + component scalarSample sc),
                at_mod (perGroup (colScalarsMin sc)) group
                  (\<lambda>v. assignMin v (component scalarSample sc)),
                at_mod (perGroupPerTime (colScalarsMin sc)) idxGroupTime
                  (\<lambda>v. assignMin v (component scalarSample sc)),
                at_mod (perGroup (colScalarsMax sc)) group
                  (\<lambda>v. assignMax v (component scalarSample sc)),
                at_mod (perGroupPerTime (colScalarsMax sc)) idxGroupTime
                  (\<lambda>v. assignMax v (component scalarSample sc))]),
              (\<lambda>s. if z \<noteq> SEED_DEPTH then Inr s
                    else seqE [
                      at_mod (perGroup colNumTopVoxelsR) group (\<lambda>v. v + 1),
                      at_mod (perGroupPerTime colNumTopVoxelsR) idxGroupTime (\<lambda>v. v + 1),
                      forE [0..<numScalars] (\<lambda>sc. seqE [
                        at_mod (perGroup (colScalarsSurface sc)) group
                          (\<lambda>v. v + component scalarSample sc),
                        at_mod (perGroupPerTime (colScalarsSurface sc)) idxGroupTime
                          (\<lambda>v. v + component scalarSample sc)]),
                      (\<lambda>s. bindE (getAsDVec4 topScalarVol (fst idx, fst (snd idx), time))
                        (\<lambda>scalarSample. forE [0..<numTopScalars] (\<lambda>sc. seqE [
                          at_mod (perGroup (colTopScalarsExtreme sc)) group
                            (\<lambda>v. assignExtremum v (component scalarSample sc)),
                          at_mod (perGroupPerTime (colTopScalarsExtreme sc)) idxGroupTime
                            (\<lambda>v. assignExtremum v (component scalarSample sc)),
                          at_mod (perGroup (colTopScalarsMin sc)) group
                            (\<lambda>v. assignMin v (component scalarSample sc)),
                          at_mod (perGroupPerTime (colTopScalarsMin sc)) idxGroupTime
                            (\<lambda>v. assignMin v (component scalarSample sc)),
                          at_mod (perGroup (colTopScalarsMax sc)) group
                            (\<lambda>v. assignMax v (component scalarSample sc)),
                          at_mod (perGroupPerTime (colTopScalarsMax sc)) idxGroupTime
                            (\<lambda>v. assignMax v (component scalarSample sc))]) s))] s)] s))] s)"

subsection \<open>The per-timestep finalize pass\<close>

text \<open>
  The block \<open>if (parentGroup >= 0 && parentGroup < group) { ... }\<close>. The source
  computes \<open>parentGroupTime\<close> from \<open>group\<close>, and runs the top-scalar statements inside
  the loop over \<open>numScalars\<close>.
\<close>

definition addToParent :: "nat \<Rightarrow> nat \<Rightarrow> nat \<Rightarrow> nat \<Rightarrow> nat \<Rightarrow> Frames \<Rightarrow> error + Frames" where
  "addToParent numGroups numScalars time grp parentGroup =
     (let idxGroupTime = numGroups * time + grp;
          parentGroupTime = numGroups * time + grp
      in seqE [
        at_from (+) (perGroup colNumVoxelsR) parentGroup
          (perGroupPerTime colNumVoxelsR) idxGroupTime,
        at_from (+) (perGroupPerTime colNumVoxelsR) parentGroupTime
          (perGroupPerTime colNumVoxelsR) idxGroupTime,
        at_from (+) (perGroup colNumTopVoxelsR) parentGroup
          (perGroupPerTime colNumTopVoxelsR) idxGroupTime,
        at_from (+) (perGroupPerTime colNumTopVoxelsR) parentGroupTime
          (perGroupPerTime colNumTopVoxelsR) idxGroupTime,
        forE [0..<numScalars] (\<lambda>sc. seqE [
          at_from (+) (perGroup (colScalarsSurface sc)) parentGroup
            (perGroupPerTime (colScalarsSurface sc)) idxGroupTime,
          at_from (+) (perGroupPerTime (colScalarsSurface sc)) parentGroupTime
            (perGroupPerTime (colScalarsSurface sc)) idxGroupTime,
          at_from (+) (perGroup (colScalarsAverage sc)) parentGroup
            (perGroupPerTime (colScalarsAverage sc)) idxGroupTime,
          at_from (+) (perGroupPerTime (colScalarsAverage sc)) parentGroupTime
            (perGroupPerTime (colScalarsAverage sc)) idxGroupTime,
          at_from assignMin (perGroup (colScalarsMin sc)) parentGroup
            (perGroup (colScalarsMin sc)) grp,
          at_from assignMin (perGroupPerTime (colScalarsMin sc)) parentGroupTime
            (perGroupPerTime (colScalarsMin sc)) idxGroupTime,
          at_from assignMax (perGroup (colScalarsMax sc)) parentGroup
            (perGroup (colScalarsMax sc)) grp,
          at_from assignMax (perGroupPerTime (colScalarsMax sc)) parentGroupTime
            (perGroupPerTime (colScalarsMax sc)) idxGroupTime,
          at_from assignExtremum (perGroup (colTopScalarsExtreme sc)) parentGroup
            (perGroup (colTopScalarsExtreme sc)) grp,
          at_from assignExtremum (perGroupPerTime (colTopScalarsExtreme sc)) parentGroupTime
            (perGroupPerTime (colTopScalarsExtreme sc)) idxGroupTime,
          at_from assignMin (perGroup (colTopScalarsMin sc)) parentGroup
            (perGroup (colTopScalarsMin sc)) grp,
          at_from assignMin (perGroupPerTime (colTopScalarsMin sc)) parentGroupTime
            (perGroupPerTime (colTopScalarsMin sc)) idxGroupTime,
          at_from assignMax (perGroup (colTopScalarsMax sc)) parentGroup
            (perGroup (colTopScalarsMax sc)) grp,
          at_from assignMax (perGroupPerTime (colTopScalarsMax sc)) parentGroupTime
            (perGroupPerTime (colTopScalarsMax sc)) idxGroupTime])])"

text \<open>The two guarded divisions that turn the per-time sums into averages.\<close>

definition averagePerTime :: "nat \<Rightarrow> nat \<Rightarrow> Frames \<Rightarrow> error + Frames" where
  "averagePerTime numScalars idxGroupTime =
     seqE [
       (\<lambda>s. bindE (at_get (perGroupPerTime colNumTopVoxelsR) idxGroupTime s) (\<lambda>n.
          if n > 0 then
            forE [0..<numScalars] (\<lambda>sc.
              at_from (\<lambda>v c. v / real_of_int c)
                (perGroupPerTime (colScalarsSurface sc)) idxGroupTime
                (perGroupPerTime colNumTopVoxelsR) idxGroupTime) s
          else Inr s)),
       (\<lambda>s. bindE (at_get (perGroupPerTime colNumVoxelsR) idxGroupTime s) (\<lambda>n.
          if n > 0 then
            forE [0..<numScalars] (\<lambda>sc.
              at_from (\<lambda>v c. v / real_of_int c)
                (perGroupPerTime (colScalarsAverage sc)) idxGroupTime
                (perGroupPerTime colNumVoxelsR) idxGroupTime) s
          else Inr s))]"

text \<open>
  What the loop body does with the vortex record found at the seed depth, after the
  parent block: aspect ratio, average radius, rotation, centres and travelled distance.
  \<^verbatim>\<open>if (std::isfinite(vortex->maxRadius / vortex->minRadius)) {
      colAspectRatio.PerGroupPerTime->at(idxGroupTime) = vortex->maxRadius / vortex->minRadius;
      colAspectRatio.PerGroup->at(group) += vortex->maxRadius / vortex->minRadius;
  } else { colAspectRatio.PerGroupPerTime->at(idxGroupTime) = NAN; }\<close>
  The radii are \<open>double\<close> and the column is created with \<open>make<float>\<close>: the test is
  on the \<open>double\<close> quotient, the assignment converts it to \<open>float\<close>, and \<open>+=\<close> adds
  in \<open>double\<close> and converts the sum.
\<close>

definition recordAspectRatio :: "nat \<Rightarrow> nat \<Rightarrow> Vortex \<Rightarrow> Frames \<Rightarrow> error + Frames" where
  "recordAspectRatio idxGroupTime grp vortex =
     (let ratio = to_double (fdiv (Finite (maxRadius vortex)) (Finite (minRadius vortex)))
      in if isfinite ratio then
           seqE [at_set (perGroupPerTime colAspectRatioR) idxGroupTime (to_float ratio),
                 at_mod (perGroup colAspectRatioR) grp
                   (\<lambda>v. to_float (to_double (fadd v ratio)))]
         else at_set (perGroupPerTime colAspectRatioR) idxGroupTime NaN)"

definition recordCenter :: "nat \<Rightarrow> nat \<Rightarrow> nat \<Rightarrow> Vortex \<Rightarrow> Frames \<Rightarrow> error + Frames" where
  "recordCenter idxGroupTime time grp vortex =
     seqE [
       ix_set colCenterXR idxGroupTime (fst (center vortex)),
       ix_set colCenterYR idxGroupTime (snd (center vortex)),
       (\<lambda>s. bindE (ix_get colStartTimeR grp s) (\<lambda>start.
          if int time \<noteq> start then
            seqE [
              (\<lambda>s. bindE (ix_get prevCentersR grp s) (\<lambda>prev.
                      ix_mod colTravelR grp (\<lambda>v. v + distance (center vortex) prev) s)),
              ix_set prevCentersR grp (center vortex),
              ix_set colEndXR grp (fst (center vortex)),
              ix_set colEndYR grp (snd (center vortex))] s
          else
            seqE [
              ix_set colStartXR grp (fst (center vortex)),
              ix_set colStartYR grp (snd (center vortex))] s))]"

text \<open>One iteration of \<open>for (int group = numGroups - 1; group >= 0; --group)\<close>.\<close>

definition finalizeGroup ::
  "nat \<Rightarrow> nat \<Rightarrow> nat \<Rightarrow> VortexSet \<Rightarrow> nat \<Rightarrow> nat \<Rightarrow> Frames \<Rightarrow> error + Frames" where
  "finalizeGroup SEED_DEPTH numGroups numScalars vortices time grp s =
     (let idxGroupTime = numGroups * time + grp
      in bindE (seqE [
           ix_set colTimeStepR idxGroupTime (int time),
           at_set (perGroupPerTime colGroupR) idxGroupTime (int grp),
           averagePerTime numScalars idxGroupTime] s)
         (\<lambda>s. if grp \<ge> length (groups vortices) then Inl UncheckedIndex
               else case find_if (\<lambda>vort. heightSlice vort = SEED_DEPTH) (groups vortices ! grp) of
                 None \<Rightarrow> Inr (s\<lparr>logged := logged s @ [VortexNotOnSeedDepth]\<rparr>)
               | Some (pos, vortex) \<Rightarrow>
                   let parentGroup = getParentGroup vortices (groupOffset vortices grp + pos)
                   in seqE [
                     (\<lambda>s. if parentGroup \<ge> 0 \<and> parentGroup < int grp
                           then addToParent numGroups numScalars time grp (nat parentGroup) s
                           else Inr s),
                     recordAspectRatio idxGroupTime grp vortex,
                     at_set (perGroupPerTime colAvgRadiusR) idxGroupTime (avgRadius vortex),
                     at_mod (perGroup colAvgRadiusR) grp (\<lambda>v. v + avgRadius vortex),
                     ix_set colRotationR grp (if rotation vortex = Clockwise then 0 else 1),
                     recordCenter idxGroupTime time grp vortex] s))"

subsection \<open>The final per-group pass\<close>

text \<open>One iteration of \<open>for (size_t group = 0; group < numGroups; ++group)\<close>.\<close>

definition finalGroup :: "nat \<Rightarrow> nat \<Rightarrow> Frames \<Rightarrow> error + Frames" where
  "finalGroup numScalars grp s =
     bindE (at_set (perGroup colGroupR) grp (int grp) s) (\<lambda>s.
       bindE (ix_get colLifeTimeR grp s) (\<lambda>lifeTime.
         if lifeTime = 0 then Inr s
         else seqE [
           at_mod (perGroup colAspectRatioR) grp (\<lambda>v. fdiv v (Finite (real_of_int lifeTime))),
           at_mod (perGroup colAvgRadiusR) grp (\<lambda>v. v / real_of_int lifeTime),
           (\<lambda>s. bindE (at_get (perGroup colNumTopVoxelsR) grp s) (\<lambda>n.
              if n > 0 then
                forE [0..<numScalars] (\<lambda>sc.
                  at_from (\<lambda>v c. v / real_of_int c)
                    (perGroup (colScalarsSurface sc)) grp (perGroup colNumTopVoxelsR) grp) s
              else Inr s)),
           (\<lambda>s. bindE (at_get (perGroup colNumVoxelsR) grp s) (\<lambda>n.
              if n > 0 then
                forE [0..<numScalars] (\<lambda>sc.
                  at_from (\<lambda>v c. v / real_of_int c)
                    (perGroup (colScalarsAverage sc)) grp (perGroup colNumVoxelsR) grp) s
              else Inr s))] s))"

subsection \<open>\<open>VortexStatistics::process\<close>\<close>

text \<open>
  The processor: the trigger flag, the four inports (\<open>None\<close> when a port has no data),
  the properties, the two outports and the log. After a run both outports hold the frames
  of that run: \<open>dataOut\<close> shows the \<open>PerGroup\<close> columns and the per-group vectors,
  \<open>perGroupDataOut\<close> the \<open>PerGroupPerTime\<close> columns and the per-time vectors.
\<close>

record VortexStatistics =
  doAssemble :: bool
  maskVolumeIn :: "MaskVolume list option"
  scalarVolumesIn :: "ScalarVolume list option"
  topScalarVolumesIn :: "ScalarVolume option"
  vorticesIn :: "VortexSet option"
  scalarNames :: "string list"
  topScalarNames :: "string list"
  ensembleMember :: int
  skipLastGroup :: bool
  dataOut :: "Frames option"
  perGroupDataOut :: "Frames option"
  logWarn :: "warning list"

text \<open>
  \<open>static_cast<size_t>(double)\<close> truncates towards zero; outside the range of
  \<open>size_t\<close> C++ leaves the result undefined and the model wraps. In
  \<^verbatim>\<open>std::min(static_cast<size_t>(maskVolumeIn_.getData()->back()->dataMap_.dataRange.y - 1),
           skipLastGroup_ ? vortices->numGroups() - 1 : vortices->numGroups())\<close>
  the first subtraction is a \<open>double\<close> subtraction, rounded before the cast, and
  \<open>vortices->numGroups() - 1\<close> is a \<open>size_t\<close> subtraction, which wraps at 0.
\<close>

definition size_t_of_double :: "real \<Rightarrow> 64 word" where
  "size_t_of_double x = word_of_int (if 0 \<le> x then \<lfloor>x\<rfloor> else \<lceil>x\<rceil>)"

definition numGroupsOf :: "MaskVolume list \<Rightarrow> bool \<Rightarrow> VortexSet \<Rightarrow> 64 word" where
  "numGroupsOf masks skipLast vortices =
     std_min (size_t_of_double (double_round (dataRangeY (last masks) - 1)))
             (if skipLast then vortexNumGroups vortices - 1 else vortexNumGroups vortices)"

text \<open>The test in front of the \<open>LogWarn\<close> about the dimensions.\<close>

definition dimensionsNotMatching :: "size3 \<Rightarrow> size3 \<Rightarrow> size3 \<Rightarrow> nat \<Rightarrow> bool" where
  "dimensionsNotMatching volumeDims scalarDims topScalarDims numScalarVolumes =
     (volumeDims \<noteq> scalarDims \<or> fst topScalarDims \<noteq> fst scalarDims \<or>
      fst (snd topScalarDims) \<noteq> fst (snd scalarDims) \<or>
      snd (snd topScalarDims) \<noteq> numScalarVolumes)"

definition makeColumn :: "nat \<Rightarrow> nat \<Rightarrow> 'a \<Rightarrow> 'a ColumnPair" where
  "makeColumn numGroups numGroupTimeSteps initVal =
     \<lparr>PerGroup = Some (replicate numGroups initVal),
      PerGroupPerTime = Some (replicate numGroupTimeSteps initVal)\<rparr>"

text \<open>
  The columns as the source creates them. \<open>colScalars\<close> gets one element per name,
  filled through a reference; \<open>colTopScalars\<close> gets one element per name too, but the
  source fills a copy of it (\<open>SurfaceColumns surf = colTopScalars.emplace_back()\<close>),
  so the element keeps its value-initialised pointers and the created columns are only in
  the frames. \<open>columnRotation->set\<close> writes rows 0 and 1.
\<close>

definition createColumns :: "nat \<Rightarrow> nat \<Rightarrow> int \<Rightarrow> nat \<Rightarrow> nat \<Rightarrow> Frames" where
  "createColumns numGroups numTimeSteps ensemble numNames numTopNames =
     (let numGroupTimeSteps = numTimeSteps * numGroups;
          mk = makeColumn numGroups numGroupTimeSteps;
          unset = \<lparr>PerGroup = None, PerGroupPerTime = None\<rparr>
      in \<lparr>colEnsemble = makeColumn numGroups numGroupTimeSteps ensemble,
          colGroup = makeColumn numGroups numGroupTimeSteps 0,
          colTimeStep = replicate numGroupTimeSteps 0,
          colNumVoxels = makeColumn numGroups numGroupTimeSteps 0,
          colNumTopVoxels = makeColumn numGroups numGroupTimeSteps 0,
          colMaxDepth = makeColumn numGroups numGroupTimeSteps 0,
          colAspectRatio = makeColumn numGroups numGroupTimeSteps (Finite 0),
          colAvgRadius = makeColumn numGroups numGroupTimeSteps 0,
          colLifeTime = replicate numGroups 0,
          colStartTime = replicate numGroups (int numTimeSteps),
          colRotation = (replicate numGroups 0)[0 := 0, 1 := 1],
          colCenterX = replicate numGroupTimeSteps 0,
          colCenterY = replicate numGroupTimeSteps 0,
          colStartX = replicate numGroups 0,
          colStartY = replicate numGroups 0,
          colEndX = replicate numGroups 0,
          colEndY = replicate numGroups 0,
          colTravel = replicate numGroups 0,
          colScalars = replicate numNames \<lparr>Surface = mk 0, Average = mk 0, Min_s = mk 0, Max_s = mk 0\<rparr>,
          colTopScalars = replicate numTopNames \<lparr>Extreme = unset, Min_t = unset, Max_t = unset\<rparr>,
          surfColumns = replicate numTopNames \<lparr>Extreme = mk 0, Min_t = mk 0, Max_t = mk 0\<rparr>,
          prevCenters = replicate numGroups (0, 0),
          logged = []\<rparr>)"

text \<open>
  The condition of
  \<^verbatim>\<open>ivwAssert(numScalars * 4 == colScalars.size() && numTopScalars * 3 == colTopScalars.size(), ...)\<close>
  in \<open>size_t\<close> arithmetic.
\<close>

definition nameCountAssertion :: "nat \<Rightarrow> nat \<Rightarrow> Frames \<Rightarrow> bool" where
  "nameCountAssertion numScalars numTopScalars s =
     ((of_nat numScalars * 4 :: 64 word) = of_nat (length (colScalars s)) \<and>
      (of_nat numTopScalars * 3 :: 64 word) = of_nat (length (colTopScalars s)))"

text \<open>One iteration of \<open>for (int time = 0; time < int(numTimeSteps); ++time)\<close>.\<close>

definition timeStep ::
  "nat \<Rightarrow> bool \<Rightarrow> nat \<Rightarrow> nat \<Rightarrow> nat \<Rightarrow> size3 \<Rightarrow> MaskVolume list \<Rightarrow> ScalarVolume list \<Rightarrow>
   ScalarVolume \<Rightarrow> VortexSet \<Rightarrow> nat \<Rightarrow> Frames \<Rightarrow> error + Frames" where
  "timeStep SEED_DEPTH assertions numGroups numScalars numTopScalars volumeDims masks scalars
       topScalarVol vortices time s =
     (let maskVolume = masks ! time;
          scalarVol = scalars ! time
      in if assertions \<and> mDimensions maskVolume \<noteq> volumeDims then Inl AssertionFailed
         else seqE [
           forE (forEachVoxel (mDimensions maskVolume))
             (indexCallback SEED_DEPTH numGroups numScalars numTopScalars time maskVolume
                volumeDims scalarVol topScalarVol),
           forE (rev [0..<numGroups])
             (finalizeGroup SEED_DEPTH numGroups numScalars vortices time)] s)"

text \<open>
  The whole method. \<open>assertions\<close> says whether the build checks \<open>ivwAssert\<close>
  (the macro is declared outside the given sources). An \<open>Inl\<close> result is a failure that
  leaves \<open>process\<close>; the outports are then not set.
\<close>

definition process :: "nat \<Rightarrow> bool \<Rightarrow> VortexStatistics \<Rightarrow> error + VortexStatistics" where
  "process SEED_DEPTH assertions p =
     (if \<not> doAssemble p then Inr p
      else case maskVolumeIn p of None \<Rightarrow> Inr p | Some masks \<Rightarrow>
        if length masks = 0 then Inr p
        else case scalarVolumesIn p of None \<Rightarrow> Inr p | Some scalars \<Rightarrow>
          if length scalars \<noteq> length masks then Inr p
          else case topScalarVolumesIn p of None \<Rightarrow> Inr p | Some topScalarVol \<Rightarrow>
            case vorticesIn p of None \<Rightarrow> Inr p | Some vortices \<Rightarrow>
              let p = p\<lparr>doAssemble := False\<rparr>;
                  numGroups = unat (numGroupsOf masks (skipLastGroup p) vortices);
                  numTimeSteps = length masks;
                  volumeDims = mDimensions (hd masks);
                  scalarDims = sDimensions (hd scalars);
                  topScalarDims = sDimensions topScalarVol
              in if dimensionsNotMatching volumeDims scalarDims topScalarDims (length scalars)
                 then Inr (p\<lparr>logWarn := logWarn p @
                        [DimensionsNotMatching volumeDims numTimeSteps scalarDims
                           (length scalars) topScalarDims]\<rparr>)
                 else
                   let s = createColumns numGroups numTimeSteps (ensembleMember p)
                             (length (scalarNames p)) (length (topScalarNames p));
                       numScalars = components (hd scalars);
                       numTopScalars = components topScalarVol
                   in if assertions \<and> \<not> nameCountAssertion numScalars numTopScalars s
                      then Inl AssertionFailed
                      else bindE (seqE [
                             forE [0..<numTimeSteps]
                               (timeStep SEED_DEPTH assertions numGroups numScalars numTopScalars
                                  volumeDims masks scalars topScalarVol vortices),
                             forE [0..<numGroups] (finalGroup numScalars)] s)
                           (\<lambda>s. Inr (p\<lparr>dataOut := Some s, perGroupDataOut := Some s,
                                       logWarn := logWarn p @ logged s\<rparr>)))"

subsection \<open>Reading the tables\<close>

text \<open>
  Sum over all timesteps of the per-time voxel count of a group, read from the
  per-group-per-time frame (row \<open>numGroups * time + group\<close>).
\<close>

definition perTimeVoxelSum :: "nat \<Rightarrow> nat \<Rightarrow> nat \<Rightarrow> Frames \<Rightarrow> int option" where
  "perTimeVoxelSum numGroups numTimeSteps g fr =
     map_option (\<lambda>col. sum_list (map (\<lambda>t. col ! (numGroups * t + g)) [0..<numTimeSteps]))
       (PerGroupPerTime (colNumVoxels fr))"

text \<open>The centres recorded for a group, one per timestep, from the per-time frame.\<close>

definition recordedCenters :: "nat \<Rightarrow> nat \<Rightarrow> nat \<Rightarrow> Frames \<Rightarrow> (real \<times> real) list" where
  "recordedCenters numGroups numTimeSteps g fr =
     map (\<lambda>t. (colCenterX fr ! (numGroups * t + g), colCenterY fr ! (numGroups * t + g)))
       [0..<numTimeSteps]"

text \<open>
  The travelled distance in the words of the specification: the sum of the Euclidean
  distances between consecutive centres; the first centre contributes nothing.
\<close>

fun pathLength :: "(real \<times> real) list \<Rightarrow> real" where
  "pathLength [] = 0"
| "pathLength [p] = 0"
| "pathLength (p # q # ps) = distance q p + pathLength (q # ps)"

text \<open>The frames a successful run leaves in the per-group outport.\<close>

definition tablesOf :: "error + VortexStatistics \<Rightarrow> Frames option" where
  "tablesOf r = (case r of Inl e \<Rightarrow> None | Inr p \<Rightarrow> dataOut p)"

subsection \<open>Concrete inputs\<close>

text \<open>
  A volume of three voxels, (0,0,0), (0,0,1) and (0,0,2), with seed depth 0. The voxels
  at depth 1 and 2 carry mask value 1 (group 0) and the scalar values 6 and 2. The
  hierarchy knows three groups, each with one record at the seed depth, centre (3,4);
  with the last group skipped and a mask data range up to 3, \<open>numGroups\<close> is 2.
\<close>

definition exVortex :: Vortex where
  "exVortex = \<lparr>heightSlice = 0, center = (3, 4), minRadius = 1, maxRadius = 2,
                avgRadius = 1, rotation = Clockwise\<rparr>"

definition exVortices :: VortexSet where
  "exVortices = \<lparr>groups = [[exVortex], [exVortex], [exVortex]], getParentGroup = (\<lambda>i. - 1)\<rparr>"

text \<open>The same hierarchy, with group 0 as the parent of the record of group 1.\<close>

definition exNested :: VortexSet where
  "exNested = \<lparr>groups = [[exVortex], [exVortex], [exVortex]],
               getParentGroup = (\<lambda>i. if i = 1 then 0 else - 1)\<rparr>"

definition exMask :: MaskVolume where
  "exMask = \<lparr>mDimensions = (1, 1, 3), maskData = [0, 1, 1], dataRangeY = 3\<rparr>"

definition exBackground :: MaskVolume where
  "exBackground = \<lparr>mDimensions = (1, 1, 3), maskData = [0, 0, 0], dataRangeY = 3\<rparr>"

definition exScalar :: ScalarVolume where
  "exScalar = \<lparr>sDimensions = (1, 1, 3), components = 1,
                scalarData = [(0, 0, 0, 0), (6, 0, 0, 0), (2, 0, 0, 0)]\<rparr>"

definition exTop :: "nat \<Rightarrow> ScalarVolume" where
  "exTop numTimeSteps = \<lparr>sDimensions = (1, 1, numTimeSteps), components = 1,
                          scalarData = replicate numTimeSteps (0, 0, 0, 0)\<rparr>"

definition exRun :: "MaskVolume list \<Rightarrow> VortexSet \<Rightarrow> VortexStatistics" where
  "exRun masks vortices =
     \<lparr>doAssemble = True, maskVolumeIn = Some masks,
      scalarVolumesIn = Some (replicate (length masks) exScalar),
      topScalarVolumesIn = Some (exTop (length masks)), vorticesIn = Some vortices,
      scalarNames = [''S''], topScalarNames = [''T''], ensembleMember = 0,
      skipLastGroup = True, dataOut = None, perGroupDataOut = None, logWarn = []\<rparr>"

text \<open>
  Frames of two groups and one timestep in which group 1 has three surface voxels,
  for the four count statements of the parent block.
\<close>

definition exChildCounted :: Frames where
  "exChildCounted =
     (createColumns 2 1 0 0 0)\<lparr>colNumTopVoxels :=
        \<lparr>PerGroup = Some [0, 3], PerGroupPerTime = Some [0, 3]\<rparr>\<rparr>"

text \<open>A hierarchy of five groups, and a mask whose data range allows nine group ids.\<close>

definition exFive :: VortexSet where
  "exFive = \<lparr>groups = replicate 5 [exVortex], getParentGroup = (\<lambda>i. - 1)\<rparr>"

definition exWideMask :: MaskVolume where
  "exWideMask = \<lparr>mDimensions = (1, 1, 3), maskData = [0, 1, 1], dataRangeY = 10\<rparr>"

text \<open>
  A mask volume of two voxels, both background. As the second volume of a series it
  differs in size from the first mask volume and from its own scalar volume.
\<close>

definition exShortMask :: MaskVolume where
  "exShortMask = \<lparr>mDimensions = (1, 1, 2), maskData = [0, 0], dataRangeY = 3\<rparr>"

text \<open>A hierarchy without groups.\<close>

definition exEmpty :: VortexSet where
  "exEmpty = \<lparr>groups = [], getParentGroup = (\<lambda>i. - 1)\<rparr>"

text \<open>
  The hierarchy of the example with nearly degenerate records: maximal radius 1 and
  minimal radius \<open>2^-130\<close>. The quotient \<open>2^130\<close> is a finite \<open>double\<close> beyond the
  range of \<open>float\<close>.
\<close>

definition exThin :: VortexSet where
  "exThin = \<lparr>groups = replicate 3 [exVortex\<lparr>minRadius := 1 / 2 ^ 130, maxRadius := 1\<rparr>],
              getParentGroup = (\<lambda>i. - 1)\<rparr>"

subsection \<open>Allocated frames\<close>

text \<open>
  The frames have the shape \<open>createColumns\<close> gives them: every column pair set, with
  \<open>numGroups\<close> rows per group and \<open>numTimeSteps * numGroups\<close> rows per group and
  time, and at least \<open>numScalars\<close> elements in \<open>colScalars\<close>. Nothing is asked of
  \<open>colTopScalars\<close>.
\<close>

definition pairOk :: "nat \<Rightarrow> nat \<Rightarrow> 'a ColumnPair \<Rightarrow> bool" where
  "pairOk n m p =
     (map_option length (PerGroup p) = Some n \<and> map_option length (PerGroupPerTime p) = Some m)"

definition scalarOk :: "nat \<Rightarrow> nat \<Rightarrow> ScalarColumns \<Rightarrow> bool" where
  "scalarOk n m c =
     (pairOk n m (Surface c) \<and> pairOk n m (Average c) \<and> pairOk n m (Min_s c) \<and>
      pairOk n m (Max_s c))"

definition framesOk :: "nat \<Rightarrow> nat \<Rightarrow> nat \<Rightarrow> Frames \<Rightarrow> bool" where
  "framesOk numGroups numTimeSteps numScalars s =
     (let n = numGroups; m = numTimeSteps * numGroups
      in pairOk n m (colGroup s) \<and> pairOk n m (colNumVoxels s) \<and>
         pairOk n m (colNumTopVoxels s) \<and> pairOk n m (colMaxDepth s) \<and>
         pairOk n m (colAspectRatio s) \<and> pairOk n m (colAvgRadius s) \<and>
         length (colTimeStep s) = m \<and> length (colLifeTime s) = n \<and>
         length (colStartTime s) = n \<and> length (colRotation s) = n \<and>
         length (colCenterX s) = m \<and> length (colCenterY s) = m \<and>
         length (colStartX s) = n \<and> length (colStartY s) = n \<and>
         length (colEndX s) = n \<and> length (colEndY s) = n \<and>
         length (colTravel s) = n \<and> length (prevCenters s) = n \<and>
         numScalars \<le> length (colScalars s) \<and> list_all (scalarOk n m) (colScalars s))"

subsection \<open>Statements that return, and what they leave alone\<close>

text \<open>
  \<open>succeeds P f\<close>: from every state with \<open>P\<close> the statement \<open>f\<close> returns normally,
  in a state with \<open>P\<close>. \<open>goodCol P col L\<close>: under \<open>P\<close> the column can be read, has
  \<open>L\<close> rows, and writing \<open>L\<close> rows back keeps \<open>P\<close>. \<open>keeps obs f\<close>: when \<open>f\<close>
  returns, the observation \<open>obs\<close> of the state is what it was.
\<close>

definition succeeds :: "(Frames \<Rightarrow> bool) \<Rightarrow> (Frames \<Rightarrow> error + Frames) \<Rightarrow> bool" where
  "succeeds P f = (\<forall>s. P s \<longrightarrow> (\<exists>s'. f s = Inr s' \<and> P s'))"

definition goodCol :: "(Frames \<Rightarrow> bool) \<Rightarrow> 'a column \<Rightarrow> nat \<Rightarrow> bool" where
  "goodCol P col L =
     (\<forall>s. P s \<longrightarrow> (\<exists>xs. fst col s = Inr xs \<and> length xs = L \<and>
                         (\<forall>ys. length ys = L \<longrightarrow> P (snd col ys s))))"

definition keeps :: "(Frames \<Rightarrow> 'b) \<Rightarrow> (Frames \<Rightarrow> error + Frames) \<Rightarrow> bool" where
  "keeps obs f = (\<forall>s s'. f s = Inr s' \<longrightarrow> obs s' = obs s)"

text \<open>
  The guarded division the source writes four times:
  \<^verbatim>\<open>if (count->at(i) > 0) for (s...) colScalars[s].X->at(i) /= count->at(i);\<close>
\<close>

definition divideBy ::
  "nat \<Rightarrow> nat \<Rightarrow> (nat \<Rightarrow> real column) \<Rightarrow> int column \<Rightarrow> Frames \<Rightarrow> error + Frames" where
  "divideBy k i dst cnt s =
     bindE (at_get cnt i s) (\<lambda>n.
       if n > 0 then
         forE [0..<k] (\<lambda>sc. at_from (\<lambda>v c. v / real_of_int c) (dst sc) i cnt i) s
       else Inr s)"

text \<open>What the guarded divisions of the final pass read.\<close>

definition summaryInputs ::
  "Frames \<Rightarrow> int list \<times> int ColumnPair \<times> int ColumnPair \<times> ScalarColumns list" where
  "summaryInputs s = (colLifeTime s, colNumTopVoxels s, colNumVoxels s, colScalars s)"

text \<open>The hierarchy of the example with a degenerate record: minimal radius 0.\<close>

definition exFlat :: VortexSet where
  "exFlat = \<lparr>groups = replicate 3 [exVortex\<lparr>minRadius := 0\<rparr>], getParentGroup = (\<lambda>i. - 1)\<rparr>"

text \<open>
  Frames of two groups, one timestep and one scalar, in which group 0 has the sums 5
  (surface) and 6 (volumetric), no surface voxels, voxel counts 3 per time and 2 per
  group, and life time 1.
\<close>

definition exSummed :: Frames where
  "exSummed =
     (createColumns 2 1 0 1 1)\<lparr>
        colNumVoxels := \<lparr>PerGroup = Some [2, 0], PerGroupPerTime = Some [3, 0]\<rparr>,
        colLifeTime := [1, 0],
        colScalars := [\<lparr>Surface = \<lparr>PerGroup = Some [5, 0], PerGroupPerTime = Some [5, 0]\<rparr>,
                        Average = \<lparr>PerGroup = Some [6, 0], PerGroupPerTime = Some [6, 0]\<rparr>,
                        Min_s = makeColumn 2 2 0, Max_s = makeColumn 2 2 0\<rparr>]\<rparr>"

section \<open>Properties\<close>

text \<open>An integer below \<open>2^53\<close> is a \<open>double\<close>: rounding leaves it as it is.\<close>

lemma round_half_even_int: "round_half_even (of_int j) = j"
  by (simp add: round_half_even_def)

lemma double_round_int:
  assumes "0 < k" "k < 2 ^ 53"
  shows "double_round (of_int k) = of_int k"
proof -
  let ?x = "of_int k :: real"
  define e where "e = \<lfloor>log 2 \<bar>?x\<bar>\<rfloor>"
  have x1: "1 \<le> ?x" using assms(1) by simp
  have xpos: "0 < \<bar>?x\<bar>" using assms(1) by simp
  have b: "2 powr (of_int e) \<le> \<bar>?x\<bar>"
    using floor_log_eq_powr_iff [of "\<bar>?x\<bar>" 2 e] xpos unfolding e_def by auto
  have e0: "0 \<le> e" unfolding e_def using x1 by simp
  have "?x < 2 ^ 53" using assms(2) by (metis of_int_less_numeral_power_cancel_iff)
  then have "?x < 2 powr (of_int 53)" by (simp add: powr_realpow [symmetric])
  then have "(2::real) powr (of_int e) < 2 powr (of_int 53)" using b assms(1) by simp
  then have "e < 53" by (simp only: powr_less_cancel_iff of_int_less_iff)
  then have e52: "e \<le> 52" by simp
  define m where "m = nat (52 - e)"
  have ulp: "(2::real) powr (of_int e - 52) = 1 / 2 ^ m"
  proof -
    have "of_int e - 52 = - real m" unfolding m_def using e52 by simp
    then show ?thesis by (simp add: powr_minus powr_realpow inverse_eq_divide)
  qed
  have q: "?x / (1 / 2 ^ m) = of_int (k * 2 ^ m)" by simp
  have "double_round ?x = of_int (round_half_even (?x / (1 / 2 ^ m))) * (1 / 2 ^ m)"
    using assms(1) ulp unfolding double_round_def Let_def e_def by simp
  also have "\<dots> = of_int (k * 2 ^ m) * (1 / 2 ^ m)"
    unfolding q round_half_even_int ..
  also have "\<dots> = ?x" by simp
  finally show ?thesis .
qed

lemma double_round_numeral:
  "(numeral n :: int) < 2 ^ 53 \<Longrightarrow> double_round (numeral n) = numeral n"
  using double_round_int [of "numeral n"] by simp

text \<open>
  At \<open>dataRange.y = 2^64\<close> the subtraction gives \<open>2^64\<close> again, which is outside the
  range of \<open>size_t\<close>.
\<close>

lemma double_round_at_2_64: "double_round (2 ^ 64 - 1) = 2 ^ 64"
proof -
  have fl: "\<lfloor>log 2 \<bar>2 ^ 64 - 1 :: real\<bar>\<rfloor> = 63"
    by (subst floor_log_eq_powr_iff) (simp_all add: powr_add)
  have ul: "2 powr (of_int 63 - 52) = (2::real) ^ 11"
    by (simp add: powr_realpow [symmetric])
  show ?thesis
    unfolding double_round_def Let_def fl ul
    by (simp add: round_half_even_def)
qed

lemma double_round_nonneg_int:
  assumes "0 \<le> k" "k < 2 ^ 53"
  shows "double_round (of_int k) = of_int k"
proof (cases "k = 0")
  case True
  then show ?thesis by (simp add: double_round_def)
next
  case False
  with assms(1) have "0 < k" by simp
  then show ?thesis using assms(2) by (rule double_round_int)
qed

text \<open>
  \<open>numGroups\<close> read as a natural number, when nothing wraps and the subtraction is
  exact: a whole-numbered \<open>dataRange.y\<close> from 1 to \<open>2^53\<close>, and at least one group
  when the last one is skipped.
\<close>

lemma unat_size_t_of_double:
  assumes "0 \<le> x" "x < 2 ^ 64"
  shows "unat (size_t_of_double x) = nat \<lfloor>x\<rfloor>"
proof -
  have f0: "0 \<le> \<lfloor>x\<rfloor>" using assms(1) by simp
  have "\<lfloor>x\<rfloor> < 2 ^ 64" using assms(2) by (simp add: floor_less_iff)
  then have "nat \<lfloor>x\<rfloor> < 2 ^ 64" using f0 by (simp add: nat_less_iff)
  then have "unat (of_nat (nat \<lfloor>x\<rfloor>) :: 64 word) = nat \<lfloor>x\<rfloor>"
    by (simp add: unat_of_nat)
  moreover have "(of_nat (nat \<lfloor>x\<rfloor>) :: 64 word) = word_of_int \<lfloor>x\<rfloor>"
    using f0 by simp
  ultimately show ?thesis using assms(1) by (simp add: size_t_of_double_def)
qed

lemma unat_std_min: "unat (std_min (a :: 64 word) b) = min (unat a) (unat b)"
  by (auto simp: std_min_def word_less_nat_alt min_def)

lemma unat_group_count:
  assumes "length (groups vortices) < 2 ^ 64" "skipLast \<longrightarrow> groups vortices \<noteq> []"
  shows "unat (if skipLast then vortexNumGroups vortices - 1 else vortexNumGroups vortices)
         = (if skipLast then length (groups vortices) - 1 else length (groups vortices))"
proof (cases skipLast)
  case False
  then show ?thesis using assms(1) by (simp add: vortexNumGroups_def unat_of_nat)
next
  case True
  then have pos: "1 \<le> length (groups vortices)"
    using assms(2) by (cases "groups vortices") auto
  have "(of_nat (length (groups vortices)) :: 64 word) - 1 = of_nat (length (groups vortices) - 1)"
    using pos by simp
  moreover have "length (groups vortices) - 1 < 2 ^ 64" using assms(1) by simp
  ultimately show ?thesis using True by (simp add: vortexNumGroups_def unat_of_nat)
qed

lemma numGroups_without_wrap:
  assumes y: "dataRangeY (last masks) = of_int k" "1 \<le> k" "k \<le> 2 ^ 53"
    and n: "length (groups vortices) < 2 ^ 64" "skipLast \<longrightarrow> groups vortices \<noteq> []"
  shows "unat (numGroupsOf masks skipLast vortices) =
         min (nat (k - 1))
             (if skipLast then length (groups vortices) - 1 else length (groups vortices))"
proof -
  have r: "double_round (dataRangeY (last masks) - 1) = of_int (k - 1)"
    using double_round_nonneg_int [of "k - 1"] y by simp
  have "(of_int (k - 1) :: real) < 2 ^ 64"
  proof -
    have "k - 1 < 2 ^ 64" using y(3) by simp
    then show ?thesis by (metis of_int_less_numeral_power_cancel_iff)
  qed
  then have "unat (size_t_of_double (of_int (k - 1))) = nat (k - 1)"
    using unat_size_t_of_double [of "of_int (k - 1)"] y(2) by simp
  then show ?thesis
    using unat_group_count [OF n]
    by (simp only: numGroupsOf_def r unat_std_min)
qed

lemma numGroups_at_2_64:
  "numGroupsOf [exMask\<lparr>dataRangeY := 2 ^ 64\<rparr>] skipLast vortices = 0"
proof -
  have "size_t_of_double (double_round 18446744073709551615) = 0"
    using double_round_at_2_64 by (simp add: size_t_of_double_def)
  then show ?thesis by (simp add: numGroupsOf_def std_min_def)
qed

lemmas run_defs =
  process_def timeStep_def finalizeGroup_def finalGroup_def indexCallback_def addToParent_def
  averagePerTime_def recordAspectRatio_def recordCenter_def createColumns_def makeColumn_def
  nameCountAssertion_def dimensionsNotMatching_def numGroupsOf_def size_t_of_double_def
  vortexNumGroups_def groupOffset_def maskAt_def getAsDVec4_def posToIndex_def forEachVoxel_def
  component_def at_get_def at_mod_def at_set_def at_from_def ix_get_def ix_mod_def ix_set_def
  perGroup_def perGroupPerTime_def pairOf_def scalarOf_def topScalarOf_def vec_def deref_def
  bindE_def forE_def std_min_def std_max_def assignMin_def assignMax_def assignExtremum_def
  distance_def to_double_def to_float_def DBL_LIMIT_def FLT_LIMIT_def double_round_numeral
  Let_def

lemmas ex_defs =
  exVortex_def exVortices_def exNested_def exMask_def exBackground_def exScalar_def exTop_def
  exRun_def exChildCounted_def exFive_def exWideMask_def exFlat_def exSummed_def tablesOf_def
  perTimeVoxelSum_def recordedCenters_def exShortMask_def exEmpty_def exThin_def

lemma sqrt_25: "sqrt 25 = 5"
  using real_sqrt_unique [of 5 25] by simp

lemma replicate_numeral: "replicate (numeral k) x = x # replicate (pred_numeral k) x"
  by (simp add: numeral_eq_Suc)

text \<open>
  The run of one timestep on the example: what it leaves in the voxel-count columns, the
  life times and the scalar columns.
\<close>

lemma single_step_run:
  "map_option (\<lambda>fr. (colNumVoxels fr, colLifeTime fr, colScalars fr))
     (tablesOf (process 0 False (exRun [exMask] exVortices)))
   = Some (\<lparr>PerGroup = Some [4, 0], PerGroupPerTime = Some [0, 0]\<rparr>, [0, 0],
           [\<lparr>Surface = \<lparr>PerGroup = Some [0, 0], PerGroupPerTime = Some [0, 0]\<rparr>,
             Average = \<lparr>PerGroup = Some [8, 0], PerGroupPerTime = Some [8, 0]\<rparr>,
             Min_s = \<lparr>PerGroup = Some [2, 0], PerGroupPerTime = Some [2, 0]\<rparr>,
             Max_s = \<lparr>PerGroup = Some [6, 0], PerGroupPerTime = Some [6, 0]\<rparr>\<rparr>])"
  by (simp add: run_defs ex_defs upt_rec sqrt_25 replicate_numeral)

text \<open>
  C8. Every update of a running minimum or maximum: an accumulator that holds the
  sentinel 0 takes the observed value unconditionally, any other accumulator becomes the
  standard minimum (maximum) of itself and the observed value. So an accumulator whose
  true value is 0 is overwritten by the next observation, even by one on the wrong side
  of 0.
\<close>

theorem assign_min_max_sentinel:
  fixes acc val :: "'a::{zero,linorder}"
  shows "assignMin acc val = (if acc = 0 then val else min acc val) \<and>
         assignMax acc val = (if acc = 0 then val else max acc val) \<and>
         assignMin 0 val = val \<and> assignMax 0 val = val"
  by (auto simp: assignMin_def assignMax_def std_min_def std_max_def min_def max_def)

theorem assign_min_max_sentinel_witness:
  "assignMin (0::int) 5 = 5 \<and> assignMax (0::int) (- 5) = - 5 \<and>
   assignMin (3::int) 5 = 3 \<and> assignMax (3::int) 5 = 5"
  using assign_min_max_sentinel [of "0::int" 5] assign_min_max_sentinel [of "0::int" "- 5"]
    assign_min_max_sentinel [of "3::int" 5]
  by simp

text \<open>
  C1, evaluated on the run of one timestep in which group 0 owns two voxels. The callback
  increments the \<open>PerGroup\<close> column twice per voxel (rows \<open>group\<close> and
  \<open>idxGroupTime\<close>, which coincide at time 0) and never the \<open>PerGroupPerTime\<close>
  column: the per-time counts of group 0 sum to 0, its per-group total is 4.
\<close>

theorem voxel_count_lands_in_per_group_twice:
  "map_option (perTimeVoxelSum 2 1 0) (tablesOf (process 0 False (exRun [exMask] exVortices)))
     = Some (Some 0) \<and>
   map_option (at_get (perGroup colNumVoxelsR) 0)
     (tablesOf (process 0 False (exRun [exMask] exVortices))) = Some (Inr 4)"
  using single_step_run
  by (cases "tablesOf (process 0 False (exRun [exMask] exVortices))")
     (simp_all add: perTimeVoxelSum_def at_get_def perGroup_def pairOf_def deref_def bindE_def
        upt_rec)

text \<open>
  C2, evaluated. With group 0 as the parent of group 1 the run of one timestep ends in the
  parent block, at the first statement through \<open>colTopScalars\<close>, whose pointers were
  never set. The four count statements of the block alone, on frames where group 1 has
  three surface voxels, add them to the per-group total of the parent (row 0 becomes 3)
  but to the per-time row of group 1 itself (row 1 becomes 6); the per-time row of the
  parent stays 0.
\<close>

theorem parent_row_not_updated:
  "process 0 False (exRun [exMask] exNested) = Inl NullPointer \<and>
   map_sum id colNumTopVoxels (addToParent 2 0 0 1 0 exChildCounted)
     = Inr \<lparr>PerGroup = Some [3, 3], PerGroupPerTime = Some [0, 6]\<rparr>"
  by (simp add: run_defs ex_defs upt_rec sqrt_25 replicate_numeral)

text \<open>
  C3, evaluated. Two timesteps, group 0 owns a voxel in the second: the callback calls
  \<open>colNumVoxels.PerGroup->at(numGroups * time + group)\<close> with index 2 on a column of
  2 rows, and the \<open>std::out_of_range\<close> exception leaves \<open>process\<close>.
\<close>

theorem second_timestep_throws:
  "process 0 False (exRun [exMask, exMask] exVortices) = Inl OutOfRange"
  by (simp add: run_defs ex_defs upt_rec sqrt_25 replicate_numeral)

text \<open>
  C4, evaluated. Two timesteps; group 0 starts at time 0 and its recorded centre is (3,4)
  at both. The consecutive distances sum to 0, the table holds 5: at the first later
  timestep the distance is taken from \<open>prevCenters\<close>, still (0,0), because the branch
  of the start time does not store the centre there.
\<close>

theorem travel_measured_from_origin:
  "map_option (recordedCenters 2 2 0)
     (tablesOf (process 0 False (exRun [exMask, exBackground] exVortices)))
     = Some [(3, 4), (3, 4)] \<and>
   pathLength [(3, 4), (3, 4)] = 0 \<and>
   map_option (ix_get colTravelR 0)
     (tablesOf (process 0 False (exRun [exMask, exBackground] exVortices))) = Some (Inr 5)"
  by (simp add: run_defs ex_defs upt_rec sqrt_25 replicate_numeral)

text \<open>
  C5 as stated, evaluated. Two timesteps; the second mask volume has the dimensions
  (1,1,2), the first mask volume and both scalar volumes have (1,1,3). The test in front
  of the warning reads the first volume of each series only, so a build without
  assertions logs nothing and writes both tables: the per-group voxel count of group 0
  is there.
\<close>

theorem later_volume_mismatch_undetected:
  "mDimensions exShortMask \<noteq> mDimensions exMask \<and>
   mDimensions exShortMask \<noteq> sDimensions exScalar \<and>
   map_sum id logWarn (process 0 False (exRun [exMask, exShortMask] exVortices)) = Inr [] \<and>
   map_option (at_get (perGroup colNumVoxelsR) 0)
     (tablesOf (process 0 False (exRun [exMask, exShortMask] exVortices))) = Some (Inr 4) \<and>
   map_sum id perGroupDataOut (process 0 False (exRun [exMask, exShortMask] exVortices))
     \<noteq> Inr None"
  by (simp add: run_defs ex_defs upt_rec sqrt_25 replicate_numeral)

text \<open>
  C5, amended. When the mask or scalar series is missing or empty, their lengths differ,
  or the surface volume or the hierarchy is missing, \<open>process\<close> returns the processor
  unchanged. When the inputs are there, the run was triggered and the dimensions of the
  first volumes do not match (first mask volume against first scalar volume, surface x
  and y against the first scalar volume, surface z against the number of timesteps), it
  returns normally with both outports as they were and one more warning in the log.
\<close>

theorem process_guards_leave_outputs:
  "(maskVolumeIn p = None \<or> maskVolumeIn p = Some [] \<or> scalarVolumesIn p = None \<or>
    scalarVolumesIn p = Some [] \<or>
    map_option length (scalarVolumesIn p) \<noteq> map_option length (maskVolumeIn p) \<or>
    topScalarVolumesIn p = None \<or> vorticesIn p = None
      \<longrightarrow> process SEED_DEPTH assertions p = Inr p) \<and>
   (doAssemble p \<and> maskVolumeIn p = Some masks \<and> masks \<noteq> [] \<and>
    scalarVolumesIn p = Some scalars \<and> length scalars = length masks \<and>
    topScalarVolumesIn p = Some topVol \<and> vorticesIn p = Some vortices \<and>
    (mDimensions (hd masks) \<noteq> sDimensions (hd scalars) \<or>
     fst (sDimensions topVol) \<noteq> fst (sDimensions (hd scalars)) \<or>
     fst (snd (sDimensions topVol)) \<noteq> fst (snd (sDimensions (hd scalars))) \<or>
     snd (snd (sDimensions topVol)) \<noteq> length masks)
      \<longrightarrow> (\<exists>p'. process SEED_DEPTH assertions p = Inr p' \<and>
                 dataOut p' = dataOut p \<and> perGroupDataOut p' = perGroupDataOut p \<and>
                 logWarn p' = logWarn p @
                   [DimensionsNotMatching (mDimensions (hd masks)) (length masks)
                      (sDimensions (hd scalars)) (length scalars) (sDimensions topVol)]))"
proof (intro conjI impI)
  assume "maskVolumeIn p = None \<or> maskVolumeIn p = Some [] \<or> scalarVolumesIn p = None \<or>
    scalarVolumesIn p = Some [] \<or>
    map_option length (scalarVolumesIn p) \<noteq> map_option length (maskVolumeIn p) \<or>
    topScalarVolumesIn p = None \<or> vorticesIn p = None"
  then show "process SEED_DEPTH assertions p = Inr p"
    by (auto simp: process_def split: option.splits)
next
  assume a: "doAssemble p \<and> maskVolumeIn p = Some masks \<and> masks \<noteq> [] \<and>
    scalarVolumesIn p = Some scalars \<and> length scalars = length masks \<and>
    topScalarVolumesIn p = Some topVol \<and> vorticesIn p = Some vortices \<and>
    (mDimensions (hd masks) \<noteq> sDimensions (hd scalars) \<or>
     fst (sDimensions topVol) \<noteq> fst (sDimensions (hd scalars)) \<or>
     fst (snd (sDimensions topVol)) \<noteq> fst (snd (sDimensions (hd scalars))) \<or>
     snd (snd (sDimensions topVol)) \<noteq> length masks)"
  then have "dimensionsNotMatching (mDimensions (hd masks)) (sDimensions (hd scalars))
               (sDimensions topVol) (length scalars)"
    by (auto simp: dimensionsNotMatching_def)
  with a show "\<exists>p'. process SEED_DEPTH assertions p = Inr p' \<and>
                 dataOut p' = dataOut p \<and> perGroupDataOut p' = perGroupDataOut p \<and>
                 logWarn p' = logWarn p @
                   [DimensionsNotMatching (mDimensions (hd masks)) (length masks)
                      (sDimensions (hd scalars)) (length scalars) (sDimensions topVol)]"
    by (simp add: process_def Let_def)
qed

theorem process_guards_leave_outputs_witness:
  "process 0 False ((exRun [exMask] exVortices)\<lparr>vorticesIn := None\<rparr>)
     = Inr ((exRun [exMask] exVortices)\<lparr>vorticesIn := None\<rparr>) \<and>
   map_sum id dataOut
     (process 0 False ((exRun [exMask] exVortices)\<lparr>topScalarVolumesIn := Some (exTop 2)\<rparr>))
     = Inr None \<and>
   map_sum id perGroupDataOut
     (process 0 False ((exRun [exMask] exVortices)\<lparr>topScalarVolumesIn := Some (exTop 2)\<rparr>))
     = Inr None \<and>
   map_sum id logWarn
     (process 0 False ((exRun [exMask] exVortices)\<lparr>topScalarVolumesIn := Some (exTop 2)\<rparr>))
     = Inr [DimensionsNotMatching (1, 1, 3) 1 (1, 1, 3) 1 (1, 1, 2)]"
  using process_guards_leave_outputs
      [where p = "(exRun [exMask] exVortices)\<lparr>vorticesIn := None\<rparr>"
         and SEED_DEPTH = 0 and assertions = False]
    process_guards_leave_outputs
      [where p = "(exRun [exMask] exVortices)\<lparr>topScalarVolumesIn := Some (exTop 2)\<rparr>"
         and SEED_DEPTH = 0 and assertions = False and masks = "[exMask]"
         and scalars = "[exScalar]" and topVol = "exTop 2" and vortices = exVortices]
  by (auto simp: ex_defs)

text \<open>
  C6, evaluated. With five groups in the hierarchy and a mask range that allows nine,
  \<open>numGroups\<close> is 4 with the flag set and 5 with the flag cleared. With no group in
  the hierarchy and the flag set, \<open>vortices->numGroups() - 1\<close> wraps to \<open>2^64 - 1\<close>
  and \<open>numGroups\<close> is the bound of the mask, 9, instead of the minimum; the finalize
  pass then asks the hierarchy for a group it does not have.
\<close>

theorem numGroups_wraps_on_empty_hierarchy:
  "unat (numGroupsOf [exWideMask] True exFive) = 4 \<and>
   unat (numGroupsOf [exWideMask] False exFive) = 5 \<and>
   length (groups exEmpty) = 0 \<and>
   unat (vortexNumGroups exEmpty - 1) = 2 ^ 64 - 1 \<and>
   unat (numGroupsOf [exWideMask] True exEmpty) = 9 \<and>
   process 0 False (exRun [exWideMask] exEmpty) = Inl UncheckedIndex"
  by (simp add: run_defs ex_defs upt_rec sqrt_25 replicate_numeral unsigned_minus_1_eq_mask
        mask_eq_exp_minus_1)

text \<open>
  C10, evaluated. One volumetric and one surface component, one declared name for each:
  \<open>colScalars\<close> and \<open>colTopScalars\<close> hold one element per name, the assertion
  compares their sizes with \<open>numScalars * 4\<close> and \<open>numTopScalars * 3\<close>, and is false.
  A build that checks assertions stops there.
\<close>

theorem name_count_assertion_fails:
  "components exScalar = length (scalarNames (exRun [exMask] exVortices)) \<and>
   components (exTop 1) = length (topScalarNames (exRun [exMask] exVortices)) \<and>
   \<not> nameCountAssertion (components exScalar) (components (exTop 1))
       (createColumns 2 1 0 (length (scalarNames (exRun [exMask] exVortices)))
          (length (topScalarNames (exRun [exMask] exVortices)))) \<and>
   process 0 True (exRun [exMask] exVortices) = Inl AssertionFailed"
  by (simp add: run_defs ex_defs upt_rec)

subsection \<open>Returning statements, untouched columns, guarded divisions\<close>

lemma succeeds_seqE: "(\<forall>f\<in>set fs. succeeds P f) \<Longrightarrow> succeeds P (seqE fs)"
proof (induction fs)
  case Nil
  then show ?case by (simp add: succeeds_def)
next
  case (Cons f fs)
  then have f: "succeeds P f" and fs: "succeeds P (seqE fs)" by simp_all
  show ?case
    unfolding succeeds_def
  proof (intro allI impI)
    fix s assume "P s"
    with f obtain s1 where s1: "f s = Inr s1" "P s1" by (auto simp: succeeds_def)
    with fs obtain s' where "seqE fs s1 = Inr s'" "P s'" by (auto simp: succeeds_def)
    with s1 show "\<exists>s'. seqE (f # fs) s = Inr s' \<and> P s'" by simp
  qed
qed

lemma succeeds_forE: "(\<forall>x\<in>set xs. succeeds P (body x)) \<Longrightarrow> succeeds P (forE xs body)"
  unfolding forE_def by (rule succeeds_seqE) simp

lemma succeeds_at_mod: "goodCol P col L \<Longrightarrow> i < L \<Longrightarrow> succeeds P (at_mod col i f)"
  by (fastforce simp: succeeds_def goodCol_def at_mod_def bindE_def)

lemma succeeds_at_set: "goodCol P col L \<Longrightarrow> i < L \<Longrightarrow> succeeds P (at_set col i v)"
  by (simp add: at_set_def succeeds_at_mod)

lemma succeeds_ix_mod: "goodCol P col L \<Longrightarrow> i < L \<Longrightarrow> succeeds P (ix_mod col i f)"
  by (fastforce simp: succeeds_def goodCol_def ix_mod_def bindE_def)

lemma succeeds_ix_set: "goodCol P col L \<Longrightarrow> i < L \<Longrightarrow> succeeds P (ix_set col i v)"
  by (simp add: ix_set_def succeeds_ix_mod)

lemma succeeds_at_from:
  "goodCol P dst L \<Longrightarrow> i < L \<Longrightarrow> goodCol P src K \<Longrightarrow> j < K \<Longrightarrow>
   succeeds P (at_from f dst i src j)"
  by (fastforce simp: succeeds_def goodCol_def at_from_def at_get_def at_mod_def bindE_def)

lemma succeeds_after_at_get:
  "goodCol P col L \<Longrightarrow> i < L \<Longrightarrow> (\<And>v. succeeds P (g v)) \<Longrightarrow>
   succeeds P (\<lambda>s. bindE (at_get col i s) (\<lambda>v. g v s))"
  by (fastforce simp: succeeds_def goodCol_def at_get_def bindE_def)

lemma succeeds_after_ix_get:
  "goodCol P col L \<Longrightarrow> i < L \<Longrightarrow> (\<And>v. succeeds P (g v)) \<Longrightarrow>
   succeeds P (\<lambda>s. bindE (ix_get col i s) (\<lambda>v. g v s))"
  by (fastforce simp: succeeds_def goodCol_def ix_get_def bindE_def)

lemma succeeds_if: "succeeds P f \<Longrightarrow> succeeds P g \<Longrightarrow> succeeds P (\<lambda>s. if b then f s else g s)"
  by (simp add: succeeds_def)

lemma succeeds_skip: "succeeds P Inr"
  by (simp add: succeeds_def)

lemma succeeds_skip': "succeeds P (\<lambda>s. Inr s)"
  by (simp add: succeeds_def)

lemma idx_bound: "grp < numGroups \<Longrightarrow> time < numTimeSteps \<Longrightarrow>
  numGroups * time + grp < numTimeSteps * (numGroups::nat)"
proof -
  assume a: "grp < numGroups" "time < numTimeSteps"
  then have "numGroups * time + grp < numGroups * time + numGroups" by simp
  also have "\<dots> = numGroups * Suc time" by simp
  also have "\<dots> \<le> numGroups * numTimeSteps" using a(2) by (intro mult_le_mono2) simp
  finally show ?thesis by (simp add: mult.commute)
qed

lemma goodCol_pairs:
  "goodCol (framesOk n T k) (perGroup colGroupR) n"
  "goodCol (framesOk n T k) (perGroupPerTime colGroupR) (T * n)"
  "goodCol (framesOk n T k) (perGroup colNumVoxelsR) n"
  "goodCol (framesOk n T k) (perGroupPerTime colNumVoxelsR) (T * n)"
  "goodCol (framesOk n T k) (perGroup colNumTopVoxelsR) n"
  "goodCol (framesOk n T k) (perGroupPerTime colNumTopVoxelsR) (T * n)"
  "goodCol (framesOk n T k) (perGroup colAspectRatioR) n"
  "goodCol (framesOk n T k) (perGroupPerTime colAspectRatioR) (T * n)"
  "goodCol (framesOk n T k) (perGroup colAvgRadiusR) n"
  "goodCol (framesOk n T k) (perGroupPerTime colAvgRadiusR) (T * n)"
  by (auto simp: goodCol_def framesOk_def pairOk_def perGroup_def perGroupPerTime_def pairOf_def
      deref_def bindE_def Let_def split: option.splits)

lemma goodCol_vecs:
  "goodCol (framesOk n T k) colTimeStepR (T * n)"
  "goodCol (framesOk n T k) colLifeTimeR n"
  "goodCol (framesOk n T k) colStartTimeR n"
  "goodCol (framesOk n T k) colRotationR n"
  "goodCol (framesOk n T k) colCenterXR (T * n)"
  "goodCol (framesOk n T k) colCenterYR (T * n)"
  "goodCol (framesOk n T k) colStartXR n"
  "goodCol (framesOk n T k) colStartYR n"
  "goodCol (framesOk n T k) colEndXR n"
  "goodCol (framesOk n T k) colEndYR n"
  "goodCol (framesOk n T k) colTravelR n"
  "goodCol (framesOk n T k) prevCentersR n"
  by (auto simp: goodCol_def framesOk_def vec_def Let_def)

lemma list_all_update:
  "list_all P xs \<Longrightarrow> i < length xs \<Longrightarrow> P x \<Longrightarrow> list_all P (xs[i := x])"
  by (simp add: list_all_length nth_list_update)

lemma framesOk_scalar:
  "framesOk n T k s \<Longrightarrow> sc < k \<Longrightarrow>
   sc < length (colScalars s) \<and> scalarOk n (T * n) (colScalars s ! sc)"
  by (simp add: framesOk_def Let_def list_all_length)

lemma framesOk_colScalars_update:
  "framesOk n T k s \<Longrightarrow> length cs = length (colScalars s) \<Longrightarrow>
   list_all (scalarOk n (T * n)) cs \<Longrightarrow> framesOk n T k (s\<lparr>colScalars := cs\<rparr>)"
  by (simp add: framesOk_def Let_def)

lemma framesOk_scalars_all: "framesOk n T k s \<Longrightarrow> list_all (scalarOk n (T * n)) (colScalars s)"
  by (simp add: framesOk_def Let_def)

lemma goodCol_scalarOf:
  assumes get: "\<And>c. scalarOk n (T * n) c \<Longrightarrow> pairOk n (T * n) (field c)"
    and upd: "\<And>c h. scalarOk n (T * n) c \<Longrightarrow> pairOk n (T * n) (h (field c)) \<Longrightarrow>
                scalarOk n (T * n) (field_upd h c)"
    and sc: "sc < k"
  shows "goodCol (framesOk n T k) (perGroup (scalarOf sc field field_upd)) n"
    and "goodCol (framesOk n T k) (perGroupPerTime (scalarOf sc field field_upd)) (T * n)"
proof -
  have main: "\<exists>xs ys. fst (perGroup (scalarOf sc field field_upd)) s = Inr xs \<and> length xs = n \<and>
      fst (perGroupPerTime (scalarOf sc field field_upd)) s = Inr ys \<and> length ys = T * n \<and>
      (\<forall>zs. length zs = n \<longrightarrow>
         framesOk n T k (snd (perGroup (scalarOf sc field field_upd)) zs s)) \<and>
      (\<forall>zs. length zs = T * n \<longrightarrow>
         framesOk n T k (snd (perGroupPerTime (scalarOf sc field field_upd)) zs s))"
    if ok: "framesOk n T k s" for s
  proof -
    let ?c = "colScalars s ! sc"
    from framesOk_scalar [OF ok sc] have len: "sc < length (colScalars s)"
      and c: "scalarOk n (T * n) ?c" by simp_all
    from get [OF c] obtain xs ys where
      xs: "PerGroup (field ?c) = Some xs" "length xs = n" and
      ys: "PerGroupPerTime (field ?c) = Some ys" "length ys = T * n"
      by (auto simp: pairOk_def)
    have upd_ok: "framesOk n T k
        (colScalars_update (\<lambda>cs. cs[sc := field_upd h (cs ! sc)]) s)"
      if "pairOk n (T * n) (h (field ?c))" for h
    proof -
      have eq: "colScalars_update (\<lambda>cs. cs[sc := field_upd h (cs ! sc)]) s
            = s\<lparr>colScalars := (colScalars s)[sc := field_upd h ?c]\<rparr>"
        by (cases s) simp
      have "list_all (scalarOk n (T * n)) ((colScalars s)[sc := field_upd h ?c])"
        using list_all_update [OF framesOk_scalars_all [OF ok] len] upd [of ?c h, OF c that]
        by simp
      then show ?thesis
        unfolding eq by (intro framesOk_colScalars_update [OF ok]) simp_all
    qed
    have "framesOk n T k (snd (perGroup (scalarOf sc field field_upd)) zs s)"
      if "length zs = n" for zs
      using upd_ok [of "PerGroup_update (\<lambda>_. Some zs)"] that xs ys
      by (simp add: perGroup_def scalarOf_def pairOk_def)
    moreover have "framesOk n T k (snd (perGroupPerTime (scalarOf sc field field_upd)) zs s)"
      if "length zs = T * n" for zs
      using upd_ok [of "PerGroupPerTime_update (\<lambda>_. Some zs)"] that xs ys
      by (simp add: perGroupPerTime_def scalarOf_def pairOk_def)
    ultimately show ?thesis
      using len xs ys
      by (simp add: perGroup_def perGroupPerTime_def scalarOf_def bindE_def deref_def)
  qed
  show "goodCol (framesOk n T k) (perGroup (scalarOf sc field field_upd)) n"
    unfolding goodCol_def using main by blast
  show "goodCol (framesOk n T k) (perGroupPerTime (scalarOf sc field field_upd)) (T * n)"
    unfolding goodCol_def using main by blast
qed

lemma goodCol_scalars:
  assumes "sc < k"
  shows "goodCol (framesOk n T k) (perGroup (colScalarsSurface sc)) n"
    "goodCol (framesOk n T k) (perGroupPerTime (colScalarsSurface sc)) (T * n)"
    "goodCol (framesOk n T k) (perGroup (colScalarsAverage sc)) n"
    "goodCol (framesOk n T k) (perGroupPerTime (colScalarsAverage sc)) (T * n)"
proof -
  show "goodCol (framesOk n T k) (perGroup (colScalarsSurface sc)) n"
    by (rule goodCol_scalarOf(1)) (simp_all add: scalarOk_def assms)
  show "goodCol (framesOk n T k) (perGroupPerTime (colScalarsSurface sc)) (T * n)"
    by (rule goodCol_scalarOf(2)) (simp_all add: scalarOk_def assms)
  show "goodCol (framesOk n T k) (perGroup (colScalarsAverage sc)) n"
    by (rule goodCol_scalarOf(1)) (simp_all add: scalarOk_def assms)
  show "goodCol (framesOk n T k) (perGroupPerTime (colScalarsAverage sc)) (T * n)"
    by (rule goodCol_scalarOf(2)) (simp_all add: scalarOk_def assms)
qed

lemma succeeds_else: "succeeds P f \<Longrightarrow> succeeds P g \<Longrightarrow> succeeds P (if b then f else g)"
  by simp

lemma succeeds_averagePerTime:
  assumes "i < T * n"
  shows "succeeds (framesOk n T k) (averagePerTime k i)"
  unfolding averagePerTime_def
  apply (rule succeeds_seqE)
  apply (simp only: set_simps ball_simps)
  apply (intro conjI TrueI)
   apply (rule succeeds_after_at_get [OF goodCol_pairs(6) assms])
   apply (rule succeeds_if)
    apply (rule succeeds_forE)
    apply (intro ballI)
    apply (rule succeeds_at_from [OF goodCol_scalars(2) assms goodCol_pairs(6) assms])
    apply simp
   apply (rule succeeds_skip')
  apply (rule succeeds_after_at_get [OF goodCol_pairs(4) assms])
  apply (rule succeeds_if)
   apply (rule succeeds_forE)
   apply (intro ballI)
   apply (rule succeeds_at_from [OF goodCol_scalars(4) assms goodCol_pairs(4) assms])
   apply simp
  apply (rule succeeds_skip')
  done

lemma succeeds_recordAspectRatio:
  assumes "i < T * n" "g < n"
  shows "succeeds (framesOk n T k) (recordAspectRatio i g vortex)"
  unfolding recordAspectRatio_def Let_def
  by (intro succeeds_else succeeds_seqE succeeds_at_set [OF goodCol_pairs(8) assms(1)])
     (simp add: succeeds_at_set [OF goodCol_pairs(8) assms(1)]
        succeeds_at_mod [OF goodCol_pairs(7) assms(2)])

lemma succeeds_recordCenter:
  assumes "i < T * n" "g < n"
  shows "succeeds (framesOk n T k) (recordCenter i time g vortex)"
  unfolding recordCenter_def
  apply (rule succeeds_seqE)
  apply (simp only: set_simps ball_simps)
  apply (intro conjI TrueI)
    apply (rule succeeds_ix_set [OF goodCol_vecs(5) assms(1)])
   apply (rule succeeds_ix_set [OF goodCol_vecs(6) assms(1)])
  apply (rule succeeds_after_ix_get [OF goodCol_vecs(3) assms(2)])
  apply (rule succeeds_if)
   apply (rule succeeds_seqE)
   apply (simp only: set_simps ball_simps)
   apply (intro conjI TrueI)
      apply (rule succeeds_after_ix_get [OF goodCol_vecs(12) assms(2)])
      apply (rule succeeds_ix_mod [OF goodCol_vecs(11) assms(2)])
     apply (rule succeeds_ix_set [OF goodCol_vecs(12) assms(2)])
    apply (rule succeeds_ix_set [OF goodCol_vecs(9) assms(2)])
   apply (rule succeeds_ix_set [OF goodCol_vecs(10) assms(2)])
  apply (rule succeeds_seqE)
  apply (simp only: set_simps ball_simps)
  apply (intro conjI TrueI)
   apply (rule succeeds_ix_set [OF goodCol_vecs(7) assms(2)])
  apply (rule succeeds_ix_set [OF goodCol_vecs(8) assms(2)])
  done

lemma bindE_Inr: "bindE m f = Inr y \<longleftrightarrow> (\<exists>x. m = Inr x \<and> f x = Inr y)"
  by (cases m) (simp_all add: bindE_def)

lemma seqE_Cons_Inr: "seqE (f # fs) s = Inr s' \<longleftrightarrow> (\<exists>s1. f s = Inr s1 \<and> seqE fs s1 = Inr s')"
  by (cases "f s") simp_all

lemma seqE_two: "seqE [f, g] s = Inr s' \<longleftrightarrow> (\<exists>s1. f s = Inr s1 \<and> g s1 = Inr s')"
  by (cases "f s") (auto split: sum.splits)

lemma succeeds_bindE: "succeeds P f \<Longrightarrow> succeeds P g \<Longrightarrow> succeeds P (\<lambda>s. bindE (f s) g)"
  by (fastforce simp: succeeds_def bindE_def)

lemma keeps_Nil: "keeps obs (seqE [])"
  by (simp add: keeps_def)

lemma keeps_Cons: "keeps obs f \<Longrightarrow> keeps obs (seqE fs) \<Longrightarrow> keeps obs (seqE (f # fs))"
  by (auto simp: keeps_def seqE_Cons_Inr simp del: seqE.simps)

lemma keeps_at_mod: "(\<And>xs s. obs (snd col xs s) = obs s) \<Longrightarrow> keeps obs (at_mod col i f)"
  by (auto simp: keeps_def at_mod_def bindE_Inr split: if_splits)

lemma keeps_at_set: "(\<And>xs s. obs (snd col xs s) = obs s) \<Longrightarrow> keeps obs (at_set col i v)"
  by (simp add: at_set_def keeps_at_mod)

lemma keeps_ix_mod: "(\<And>xs s. obs (snd col xs s) = obs s) \<Longrightarrow> keeps obs (ix_mod col i f)"
  by (auto simp: keeps_def ix_mod_def bindE_Inr split: if_splits)

lemma keeps_ix_set: "(\<And>xs s. obs (snd col xs s) = obs s) \<Longrightarrow> keeps obs (ix_set col i v)"
  by (simp add: ix_set_def keeps_ix_mod)

lemma keeps_after_ix_get:
  "(\<And>v. keeps obs (g v)) \<Longrightarrow> keeps obs (\<lambda>s. bindE (ix_get col i s) (\<lambda>v. g v s))"
  by (auto simp: keeps_def bindE_Inr)

lemma keeps_if: "keeps obs f \<Longrightarrow> keeps obs g \<Longrightarrow> keeps obs (\<lambda>s. if b then f s else g s)"
  by (simp add: keeps_def)

lemma keeps_aspect_after:
  "keeps colAspectRatio (seqE [
     at_set (perGroupPerTime colAvgRadiusR) i r,
     at_mod (perGroup colAvgRadiusR) g f,
     ix_set colRotationR g rot,
     recordCenter i time g vortex])"
  unfolding recordCenter_def
  by (intro keeps_Cons keeps_Nil keeps_at_set keeps_at_mod keeps_ix_set keeps_ix_mod
        keeps_after_ix_get keeps_if)
     (simp_all add: perGroup_def perGroupPerTime_def pairOf_def vec_def)

lemma at_mod_Inr:
  "at_mod col i f s = Inr s' \<longleftrightarrow>
   (\<exists>xs. fst col s = Inr xs \<and> i < length xs \<and> s' = snd col (xs[i := f (xs ! i)]) s)"
  by (auto simp: at_mod_def bindE_Inr)

lemma at_set_then_get:
  assumes "at_set col i v s = Inr s'"
    and "\<And>xs ys s. fst col s = Inr ys \<Longrightarrow> fst col (snd col xs s) = Inr xs"
  shows "at_get col i s' = Inr v"
proof -
  from assms(1) obtain xs where xs: "fst col s = Inr xs" "i < length xs"
    and s': "s' = snd col (xs[i := v]) s"
    unfolding at_set_def at_mod_Inr by blast
  from assms(2) [OF xs(1)] s' have "fst col s' = Inr (xs[i := v])" by simp
  with xs(2) show ?thesis by (simp add: at_get_def bindE_def)
qed

lemma aspect_putget:
  "fst (perGroupPerTime colAspectRatioR) (snd (perGroupPerTime colAspectRatioR) xs s) = Inr xs"
  by (simp add: perGroupPerTime_def pairOf_def bindE_def deref_def)

lemma recordAspectRatio_sets:
  assumes "recordAspectRatio i g vortex s = Inr s'"
  shows "at_get (perGroupPerTime colAspectRatioR) i s' =
         Inr (if isfinite (to_double (fdiv (Finite (maxRadius vortex)) (Finite (minRadius vortex))))
              then to_float (to_double (fdiv (Finite (maxRadius vortex)) (Finite (minRadius vortex))))
              else NaN)"
proof (cases "isfinite (to_double (fdiv (Finite (maxRadius vortex)) (Finite (minRadius vortex))))")
  case True
  let ?r = "to_double (fdiv (Finite (maxRadius vortex)) (Finite (minRadius vortex)))"
  from assms True have "seqE [at_set (perGroupPerTime colAspectRatioR) i (to_float ?r),
      at_mod (perGroup colAspectRatioR) g (\<lambda>v. to_float (to_double (fadd v ?r)))] s = Inr s'"
    by (simp only: recordAspectRatio_def Let_def if_True)
  then obtain s1 where
    a: "at_set (perGroupPerTime colAspectRatioR) i (to_float ?r) s = Inr s1" and
    b: "at_mod (perGroup colAspectRatioR) g (\<lambda>v. to_float (to_double (fadd v ?r))) s1 = Inr s'"
    unfolding seqE_two by blast
  have "at_get (perGroupPerTime colAspectRatioR) i s1 = Inr (to_float ?r)"
    using a by (rule at_set_then_get) (rule aspect_putget)
  moreover have "keeps (at_get (perGroupPerTime colAspectRatioR) i)
                   (at_mod (perGroup colAspectRatioR) g (\<lambda>v. to_float (to_double (fadd v ?r))))"
    by (rule keeps_at_mod)
       (simp add: at_get_def perGroup_def perGroupPerTime_def pairOf_def bindE_def)
  ultimately have "at_get (perGroupPerTime colAspectRatioR) i s' = Inr (to_float ?r)"
    using b unfolding keeps_def by metis
  with True show ?thesis by (simp only: if_True)
next
  case False
  with assms have "at_set (perGroupPerTime colAspectRatioR) i NaN s = Inr s'"
    by (simp only: recordAspectRatio_def Let_def if_False)
  then have "at_get (perGroupPerTime colAspectRatioR) i s' = Inr NaN"
    by (rule at_set_then_get) (rule aspect_putget)
  with False show ?thesis by (simp only: if_False)
qed

text \<open>
  The stored value in terms of the radii: NaN when the minimal radius is 0 or the
  quotient is beyond the range of \<open>double\<close>, an infinity when the quotient is a finite
  \<open>double\<close> beyond the range of \<open>float\<close>, the quotient otherwise.
\<close>

lemma stored_ratio:
  "(if isfinite (to_double (fdiv (Finite a) (Finite b)))
    then to_float (to_double (fdiv (Finite a) (Finite b))) else NaN) =
   (if b = 0 \<or> DBL_LIMIT \<le> \<bar>a / b\<bar> then NaN
    else if FLT_LIMIT \<le> \<bar>a / b\<bar> then (if 0 < a / b then PosInf else NegInf)
    else Finite (a / b))"
  by (simp add: to_double_def to_float_def DBL_LIMIT_def FLT_LIMIT_def)

lemma finalizeGroup_found:
  assumes "grp < length (groups vortices)"
    and "find_if (\<lambda>vort. heightSlice vort = SEED_DEPTH) (groups vortices ! grp) = Some (pos, vortex)"
  shows "finalizeGroup SEED_DEPTH numGroups numScalars vortices time grp s =
     bindE (seqE [
         ix_set colTimeStepR (numGroups * time + grp) (int time),
         at_set (perGroupPerTime colGroupR) (numGroups * time + grp) (int grp),
         averagePerTime numScalars (numGroups * time + grp)] s)
       (seqE [
         (\<lambda>s. if getParentGroup vortices (groupOffset vortices grp + pos) \<ge> 0 \<and>
                  getParentGroup vortices (groupOffset vortices grp + pos) < int grp
               then addToParent numGroups numScalars time grp
                      (nat (getParentGroup vortices (groupOffset vortices grp + pos))) s
               else Inr s),
         recordAspectRatio (numGroups * time + grp) grp vortex,
         at_set (perGroupPerTime colAvgRadiusR) (numGroups * time + grp) (avgRadius vortex),
         at_mod (perGroup colAvgRadiusR) grp (\<lambda>v. v + avgRadius vortex),
         ix_set colRotationR grp (if rotation vortex = Clockwise then 0 else 1),
         recordCenter (numGroups * time + grp) time grp vortex])"
  using assms by (simp add: finalizeGroup_def Let_def del: seqE.simps)

lemma succeeds_if_false:
  "\<not> b \<Longrightarrow> succeeds P g \<Longrightarrow> succeeds P (\<lambda>s. if b then f s else g s)"
  by (simp add: succeeds_def)

lemma succeeds_Nil: "succeeds P (seqE [])"
  by (simp add: succeeds_def)

lemma succeeds_Cons: "succeeds P f \<Longrightarrow> succeeds P (seqE fs) \<Longrightarrow> succeeds P (seqE (f # fs))"
  by (fastforce simp: succeeds_def)

lemma finalizeGroup_returns:
  assumes ok: "framesOk numGroups numTimeSteps numScalars s"
    and g: "grp < numGroups" and t: "time < numTimeSteps"
    and len: "grp < length (groups vortices)"
    and found: "find_if (\<lambda>vort. heightSlice vort = SEED_DEPTH) (groups vortices ! grp)
                = Some (pos, vortex)"
    and noparent: "\<not> (0 \<le> getParentGroup vortices (groupOffset vortices grp + pos) \<and>
                      getParentGroup vortices (groupOffset vortices grp + pos) < int grp)"
  shows "\<exists>s'. finalizeGroup SEED_DEPTH numGroups numScalars vortices time grp s = Inr s' \<and>
              framesOk numGroups numTimeSteps numScalars s'"
proof -
  let ?P = "framesOk numGroups numTimeSteps numScalars"
  let ?i = "numGroups * time + grp"
  have i: "?i < numTimeSteps * numGroups" using g t by (rule idx_bound)
  have pre: "succeeds ?P (seqE [
         ix_set colTimeStepR ?i (int time),
         at_set (perGroupPerTime colGroupR) ?i (int grp),
         averagePerTime numScalars ?i])"
    by (intro succeeds_Cons succeeds_Nil succeeds_ix_set [OF goodCol_vecs(1) i]
          succeeds_at_set [OF goodCol_pairs(2) i] succeeds_averagePerTime [OF i])
  have np: "\<not> (getParentGroup vortices (groupOffset vortices grp + pos) \<ge> 0 \<and>
      getParentGroup vortices (groupOffset vortices grp + pos) < int grp)"
    using noparent by simp
  have post: "succeeds ?P (seqE [
         (\<lambda>s. if getParentGroup vortices (groupOffset vortices grp + pos) \<ge> 0 \<and>
                  getParentGroup vortices (groupOffset vortices grp + pos) < int grp
               then addToParent numGroups numScalars time grp
                      (nat (getParentGroup vortices (groupOffset vortices grp + pos))) s
               else Inr s),
         recordAspectRatio ?i grp vortex,
         at_set (perGroupPerTime colAvgRadiusR) ?i (avgRadius vortex),
         at_mod (perGroup colAvgRadiusR) grp (\<lambda>v. v + avgRadius vortex),
         ix_set colRotationR grp (if rotation vortex = Clockwise then 0 else 1),
         recordCenter ?i time grp vortex])"
    by (intro succeeds_Cons succeeds_Nil succeeds_if_false [OF np] succeeds_skip'
          succeeds_recordAspectRatio [OF i g]
          succeeds_at_set [OF goodCol_pairs(10) i] succeeds_at_mod [OF goodCol_pairs(9) g]
          succeeds_ix_set [OF goodCol_vecs(4) g] succeeds_recordCenter [OF i g])
  from pre ok obtain s1 where s1: "seqE [
         ix_set colTimeStepR ?i (int time),
         at_set (perGroupPerTime colGroupR) ?i (int grp),
         averagePerTime numScalars ?i] s = Inr s1" "?P s1"
    unfolding succeeds_def by blast
  from post s1(2) obtain s' where "seqE [
         (\<lambda>s. if getParentGroup vortices (groupOffset vortices grp + pos) \<ge> 0 \<and>
                  getParentGroup vortices (groupOffset vortices grp + pos) < int grp
               then addToParent numGroups numScalars time grp
                      (nat (getParentGroup vortices (groupOffset vortices grp + pos))) s
               else Inr s),
         recordAspectRatio ?i grp vortex,
         at_set (perGroupPerTime colAvgRadiusR) ?i (avgRadius vortex),
         at_mod (perGroup colAvgRadiusR) grp (\<lambda>v. v + avgRadius vortex),
         ix_set colRotationR grp (if rotation vortex = Clockwise then 0 else 1),
         recordCenter ?i time grp vortex] s1 = Inr s'" "?P s'"
    unfolding succeeds_def by blast
  with s1(1) show ?thesis
    unfolding finalizeGroup_found [OF len found] bindE_Inr by blast
qed

text \<open>
  The per-time aspect-ratio field after the finalize step of a group, for the record found
  at the seed depth.
\<close>

lemma finalizeGroup_aspect:
  assumes run: "finalizeGroup SEED_DEPTH numGroups numScalars vortices time grp s = Inr s'"
    and len: "grp < length (groups vortices)"
    and found: "find_if (\<lambda>vort. heightSlice vort = SEED_DEPTH) (groups vortices ! grp)
                = Some (pos, vortex)"
  shows "at_get (perGroupPerTime colAspectRatioR) (numGroups * time + grp) s' =
         Inr (if minRadius vortex = 0 \<or> DBL_LIMIT \<le> \<bar>maxRadius vortex / minRadius vortex\<bar>
              then NaN
              else if FLT_LIMIT \<le> \<bar>maxRadius vortex / minRadius vortex\<bar>
              then (if 0 < maxRadius vortex / minRadius vortex then PosInf else NegInf)
              else Finite (maxRadius vortex / minRadius vortex))"
proof -
  let ?i = "numGroups * time + grp"
  from run obtain s2 s3 where
    rar: "recordAspectRatio ?i grp vortex s2 = Inr s3" and
    rest: "seqE [
       at_set (perGroupPerTime colAvgRadiusR) ?i (avgRadius vortex),
       at_mod (perGroup colAvgRadiusR) grp (\<lambda>v. v + avgRadius vortex),
       ix_set colRotationR grp (if rotation vortex = Clockwise then 0 else 1),
       recordCenter ?i time grp vortex] s3 = Inr s'"
    unfolding finalizeGroup_found [OF len found] bindE_Inr seqE_Cons_Inr [of _ "_ # _"]
    by blast
  from rest keeps_aspect_after have "colAspectRatio s' = colAspectRatio s3"
    unfolding keeps_def by blast
  then have "at_get (perGroupPerTime colAspectRatioR) ?i s'
           = at_get (perGroupPerTime colAspectRatioR) ?i s3"
    by (simp add: at_get_def perGroupPerTime_def pairOf_def)
  with recordAspectRatio_sets [OF rar] show ?thesis
    unfolding stored_ratio by simp
qed

lemma at_get_Inr:
  "at_get col i s = Inr v \<longleftrightarrow> (\<exists>xs. fst col s = Inr xs \<and> i < length xs \<and> xs ! i = v)"
  by (auto simp: at_get_def bindE_Inr)

lemma at_get_cong: "fst col s1 = fst col s \<Longrightarrow> at_get col i s1 = at_get col i s"
  by (simp add: at_get_def)

lemma forE_Cons:
  "forE (x # xs) body s = (case body x s of Inl e \<Rightarrow> Inl e | Inr s1 \<Rightarrow> forE xs body s1)"
  by (simp add: forE_def split: sum.splits)

lemma forE_Nil: "forE [] body s = Inr s"
  by (simp add: forE_def)

lemma divide_loop:
  fixes dst :: "nat \<Rightarrow> real column" and cnt :: "int column"
  assumes indep: "\<And>a b xs s. a \<noteq> b \<Longrightarrow> fst (dst a) (snd (dst b) xs s) = fst (dst a) s"
    and putget: "\<And>b xs ys s. fst (dst b) s = Inr ys \<Longrightarrow> fst (dst b) (snd (dst b) xs s) = Inr xs"
    and cntkeep: "\<And>b xs s. fst cnt (snd (dst b) xs s) = fst cnt s"
  shows "distinct scs \<Longrightarrow> at_get cnt i s = Inr n \<Longrightarrow>
     \<forall>a\<in>set scs. \<exists>v. at_get (dst a) i s = Inr v \<Longrightarrow>
     \<exists>s'. forE scs (\<lambda>sc. at_from f (dst sc) i cnt i) s = Inr s' \<and>
          at_get cnt i s' = Inr n \<and>
          (\<forall>a. at_get (dst a) i s' =
                (if a \<in> set scs then map_sum id (\<lambda>v. f v n) (at_get (dst a) i s)
                 else at_get (dst a) i s))"
proof (induction scs arbitrary: s)
  case Nil
  then show ?case by (simp add: forE_Nil)
next
  case (Cons b rest)
  from Cons.prems(3) obtain v where v: "at_get (dst b) i s = Inr v" by auto
  then obtain xs where xs: "fst (dst b) s = Inr xs" "i < length xs" "xs ! i = v"
    unfolding at_get_Inr by blast
  define s1 where "s1 = snd (dst b) (xs[i := f v n]) s"
  have step: "at_from f (dst b) i cnt i s = Inr s1"
    using Cons.prems(2) xs by (simp add: at_from_def at_mod_def bindE_def s1_def)
  have cnt1: "at_get cnt i s1 = Inr n"
    using Cons.prems(2) at_get_cong [OF cntkeep] by (simp add: s1_def)
  have other: "at_get (dst a) i s1 = at_get (dst a) i s" if "a \<noteq> b" for a
    unfolding s1_def by (rule at_get_cong) (rule indep [OF that])
  have self: "at_get (dst b) i s1 = Inr (f v n)"
    using putget [OF xs(1)] xs(2) by (simp add: at_get_def bindE_def s1_def)
  have "\<forall>a\<in>set rest. \<exists>v. at_get (dst a) i s1 = Inr v"
  proof
    fix a assume a: "a \<in> set rest"
    then have "a \<noteq> b" using Cons.prems(1) by auto
    from other [OF this] Cons.prems(3) a show "\<exists>v. at_get (dst a) i s1 = Inr v" by simp
  qed
  with Cons.IH [of s1] Cons.prems(1) cnt1 obtain s' where
    s': "forE rest (\<lambda>sc. at_from f (dst sc) i cnt i) s1 = Inr s'"
      "at_get cnt i s' = Inr n"
      "\<forall>a. at_get (dst a) i s' =
            (if a \<in> set rest then map_sum id (\<lambda>v. f v n) (at_get (dst a) i s1)
             else at_get (dst a) i s1)"
    by auto
  have "at_get (dst a) i s' =
        (if a \<in> set (b # rest) then map_sum id (\<lambda>v. f v n) (at_get (dst a) i s)
         else at_get (dst a) i s)" for a
  proof (cases "a = b")
    case True
    then show ?thesis using s'(3) Cons.prems(1) self v by simp
  next
    case False
    then show ?thesis using s'(3) other [OF False] by simp
  qed
  with s'(1,2) step show ?case by (simp add: forE_Cons)
qed

lemma keeps_forE: "(\<And>x. keeps obs (body x)) \<Longrightarrow> keeps obs (forE xs body)"
  unfolding forE_def by (induction xs) (auto intro: keeps_Nil keeps_Cons)

lemma keeps_at_from:
  "(\<And>xs s. obs (snd dst xs s) = obs s) \<Longrightarrow> keeps obs (at_from f dst i src j)"
  by (auto simp: keeps_def at_from_def bindE_Inr at_mod_Inr)

lemma divideBy_values:
  fixes dst :: "nat \<Rightarrow> real column" and cnt :: "int column"
  assumes indep: "\<And>a b xs s. a \<noteq> b \<Longrightarrow> fst (dst a) (snd (dst b) xs s) = fst (dst a) s"
    and putget: "\<And>b xs ys s. fst (dst b) s = Inr ys \<Longrightarrow> fst (dst b) (snd (dst b) xs s) = Inr xs"
    and cntkeep: "\<And>b xs s. fst cnt (snd (dst b) xs s) = fst cnt s"
    and n: "at_get cnt i s = Inr n"
    and all: "\<forall>a<k. \<exists>v. at_get (dst a) i s = Inr v"
  shows "\<exists>s'. divideBy k i dst cnt s = Inr s' \<and>
          (\<forall>a<k. \<forall>v. at_get (dst a) i s = Inr v \<longrightarrow>
             at_get (dst a) i s' = Inr (if 0 < n then v / real_of_int n else v))"
proof (cases "0 < n")
  case False
  then show ?thesis using n by (simp add: divideBy_def bindE_def)
next
  case True
  have "\<exists>s'. forE [0..<k] (\<lambda>sc. at_from (\<lambda>v c. v / real_of_int c) (dst sc) i cnt i) s = Inr s' \<and>
          at_get cnt i s' = Inr n \<and>
          (\<forall>a. at_get (dst a) i s' =
                (if a \<in> set [0..<k] then map_sum id (\<lambda>v. v / real_of_int n) (at_get (dst a) i s)
                 else at_get (dst a) i s))"
  proof (rule divide_loop)
    show "\<And>a b xs s. a \<noteq> b \<Longrightarrow> fst (dst a) (snd (dst b) xs s) = fst (dst a) s"
      by (rule indep)
    show "\<And>b xs ys s. fst (dst b) s = Inr ys \<Longrightarrow> fst (dst b) (snd (dst b) xs s) = Inr xs"
      by (rule putget)
    show "\<And>b xs s. fst cnt (snd (dst b) xs s) = fst cnt s"
      by (rule cntkeep)
    show "distinct [0..<k]" by simp
    show "at_get cnt i s = Inr n" by (rule n)
    show "\<forall>a\<in>set [0..<k]. \<exists>v. at_get (dst a) i s = Inr v" using all by simp
  qed
  then obtain s' where s': "forE [0..<k] (\<lambda>sc. at_from (\<lambda>v c. v / real_of_int c) (dst sc) i cnt i) s = Inr s'"
    "\<forall>a. at_get (dst a) i s' =
          (if a \<in> set [0..<k] then map_sum id (\<lambda>v. v / real_of_int n) (at_get (dst a) i s)
           else at_get (dst a) i s)"
    by blast
  have "divideBy k i dst cnt s = Inr s'"
    using n True s'(1) by (simp add: divideBy_def bindE_def)
  moreover have "\<forall>a<k. \<forall>v. at_get (dst a) i s = Inr v \<longrightarrow>
             at_get (dst a) i s' = Inr (if 0 < n then v / real_of_int n else v)"
    using s'(2) True by simp
  ultimately show ?thesis by blast
qed

lemma keeps_divideBy:
  "(\<And>b xs s. obs (snd (dst b) xs s) = obs s) \<Longrightarrow> keeps obs (divideBy k i dst cnt)"
proof -
  assume a: "\<And>b xs s. obs (snd (dst b) xs s) = obs s"
  have "keeps obs (forE [0..<k] (\<lambda>sc. at_from (\<lambda>v c. v / real_of_int c) (dst sc) i cnt i))"
    by (rule keeps_forE) (rule keeps_at_from, rule a)
  then show ?thesis
    by (auto simp: keeps_def divideBy_def bindE_Inr split: if_splits)
qed

lemmas lens_defs = perGroup_def perGroupPerTime_def pairOf_def scalarOf_def vec_def bindE_def
  deref_def

lemma scalar_laws_time:
  "a \<noteq> b \<Longrightarrow> fst (perGroupPerTime (colScalarsSurface a))
       (snd (perGroupPerTime (colScalarsSurface b)) xs s) = fst (perGroupPerTime (colScalarsSurface a)) s"
  "fst (perGroupPerTime (colScalarsSurface b)) s = Inr ys \<Longrightarrow>
     fst (perGroupPerTime (colScalarsSurface b))
       (snd (perGroupPerTime (colScalarsSurface b)) xs s) = Inr xs"
  "fst (perGroupPerTime colNumTopVoxelsR) (snd (perGroupPerTime (colScalarsSurface b)) xs s)
     = fst (perGroupPerTime colNumTopVoxelsR) s"
  "fst (perGroupPerTime colNumVoxelsR) (snd (perGroupPerTime (colScalarsSurface b)) xs s)
     = fst (perGroupPerTime colNumVoxelsR) s"
  "fst (perGroupPerTime (colScalarsAverage a))
       (snd (perGroupPerTime (colScalarsSurface b)) xs s) = fst (perGroupPerTime (colScalarsAverage a)) s"
  "a \<noteq> b \<Longrightarrow> fst (perGroupPerTime (colScalarsAverage a))
       (snd (perGroupPerTime (colScalarsAverage b)) xs s) = fst (perGroupPerTime (colScalarsAverage a)) s"
  "fst (perGroupPerTime (colScalarsAverage b)) s = Inr ys \<Longrightarrow>
     fst (perGroupPerTime (colScalarsAverage b))
       (snd (perGroupPerTime (colScalarsAverage b)) xs s) = Inr xs"
  "fst (perGroupPerTime colNumVoxelsR) (snd (perGroupPerTime (colScalarsAverage b)) xs s)
     = fst (perGroupPerTime colNumVoxelsR) s"
  "fst (perGroupPerTime (colScalarsSurface a))
       (snd (perGroupPerTime (colScalarsAverage b)) xs s) = fst (perGroupPerTime (colScalarsSurface a)) s"
  by (cases "a = b"; auto simp: lens_defs nth_list_update split: if_splits)+

lemma scalar_laws_group:
  "a \<noteq> b \<Longrightarrow> fst (perGroup (colScalarsSurface a))
       (snd (perGroup (colScalarsSurface b)) xs s) = fst (perGroup (colScalarsSurface a)) s"
  "fst (perGroup (colScalarsSurface b)) s = Inr ys \<Longrightarrow>
     fst (perGroup (colScalarsSurface b))
       (snd (perGroup (colScalarsSurface b)) xs s) = Inr xs"
  "fst (perGroup colNumTopVoxelsR) (snd (perGroup (colScalarsSurface b)) xs s)
     = fst (perGroup colNumTopVoxelsR) s"
  "fst (perGroup colNumVoxelsR) (snd (perGroup (colScalarsSurface b)) xs s)
     = fst (perGroup colNumVoxelsR) s"
  "fst (perGroup (colScalarsAverage a))
       (snd (perGroup (colScalarsSurface b)) xs s) = fst (perGroup (colScalarsAverage a)) s"
  "a \<noteq> b \<Longrightarrow> fst (perGroup (colScalarsAverage a))
       (snd (perGroup (colScalarsAverage b)) xs s) = fst (perGroup (colScalarsAverage a)) s"
  "fst (perGroup (colScalarsAverage b)) s = Inr ys \<Longrightarrow>
     fst (perGroup (colScalarsAverage b))
       (snd (perGroup (colScalarsAverage b)) xs s) = Inr xs"
  "fst (perGroup colNumVoxelsR) (snd (perGroup (colScalarsAverage b)) xs s)
     = fst (perGroup colNumVoxelsR) s"
  "fst (perGroup (colScalarsSurface a))
       (snd (perGroup (colScalarsAverage b)) xs s) = fst (perGroup (colScalarsSurface a)) s"
  by (cases "a = b"; auto simp: lens_defs nth_list_update split: if_splits)+

lemma goodCol_at_get: "goodCol P col L \<Longrightarrow> P s \<Longrightarrow> i < L \<Longrightarrow> \<exists>v. at_get col i s = Inr v"
  by (fastforce simp: goodCol_def at_get_def bindE_def)

text \<open>Two guarded divisions in a row, the second on another family of columns.\<close>

lemma two_divisions:
  fixes dstS dstA :: "nat \<Rightarrow> real column" and cntS cntA :: "int column"
  assumes S1: "\<And>a b xs s. a \<noteq> b \<Longrightarrow> fst (dstS a) (snd (dstS b) xs s) = fst (dstS a) s"
    and S2: "\<And>b xs ys s. fst (dstS b) s = Inr ys \<Longrightarrow> fst (dstS b) (snd (dstS b) xs s) = Inr xs"
    and S3: "\<And>b xs s. fst cntS (snd (dstS b) xs s) = fst cntS s"
    and S4: "\<And>b xs s. fst cntA (snd (dstS b) xs s) = fst cntA s"
    and S5: "\<And>a b xs s. fst (dstA a) (snd (dstS b) xs s) = fst (dstA a) s"
    and A1: "\<And>a b xs s. a \<noteq> b \<Longrightarrow> fst (dstA a) (snd (dstA b) xs s) = fst (dstA a) s"
    and A2: "\<And>b xs ys s. fst (dstA b) s = Inr ys \<Longrightarrow> fst (dstA b) (snd (dstA b) xs s) = Inr xs"
    and A3: "\<And>b xs s. fst cntA (snd (dstA b) xs s) = fst cntA s"
    and A5: "\<And>a b xs s. fst (dstS a) (snd (dstA b) xs s) = fst (dstS a) s"
    and nS: "at_get cntS i s = Inr nS" and nA: "at_get cntA i s = Inr nA"
    and allS: "\<forall>a<k. \<exists>v. at_get (dstS a) i s = Inr v"
    and allA: "\<forall>a<k. \<exists>v. at_get (dstA a) i s = Inr v"
    and sc: "sc < k"
    and vS: "at_get (dstS sc) i s = Inr vS" and vA: "at_get (dstA sc) i s = Inr vA"
  shows "\<exists>s'. seqE [divideBy k i dstS cntS, divideBy k i dstA cntA] s = Inr s' \<and>
          at_get (dstS sc) i s' = Inr (if 0 < nS then vS / real_of_int nS else vS) \<and>
          at_get (dstA sc) i s' = Inr (if 0 < nA then vA / real_of_int nA else vA)"
proof -
  have "\<exists>s1. divideBy k i dstS cntS s = Inr s1 \<and>
      (\<forall>a<k. \<forall>v. at_get (dstS a) i s = Inr v \<longrightarrow>
             at_get (dstS a) i s1 = Inr (if 0 < nS then v / real_of_int nS else v))"
    by (rule divideBy_values [where dst = dstS and cnt = cntS])
       (rule S1 S2 S3 nS allS | assumption)+
  then obtain s1 where s1: "divideBy k i dstS cntS s = Inr s1"
    and v1: "\<forall>a<k. \<forall>v. at_get (dstS a) i s = Inr v \<longrightarrow>
             at_get (dstS a) i s1 = Inr (if 0 < nS then v / real_of_int nS else v)"
    by blast
  have kA: "keeps (at_get cntA i) (divideBy k i dstS cntS)"
    by (rule keeps_divideBy) (rule at_get_cong, rule S4)
  have kD: "keeps (at_get (dstA a) i) (divideBy k i dstS cntS)" for a
    by (rule keeps_divideBy) (rule at_get_cong, rule S5)
  have nA1: "at_get cntA i s1 = Inr nA" using kA s1 nA by (simp add: keeps_def)
  have A_same: "at_get (dstA a) i s1 = at_get (dstA a) i s" for a
    using kD [of a] s1 by (simp add: keeps_def)
  have allA1: "\<forall>a<k. \<exists>v. at_get (dstA a) i s1 = Inr v" using allA A_same by simp
  have "\<exists>s'. divideBy k i dstA cntA s1 = Inr s' \<and>
      (\<forall>a<k. \<forall>v. at_get (dstA a) i s1 = Inr v \<longrightarrow>
             at_get (dstA a) i s' = Inr (if 0 < nA then v / real_of_int nA else v))"
    by (rule divideBy_values [where dst = dstA and cnt = cntA])
       (rule A1 A2 A3 nA1 allA1 | assumption)+
  then obtain s' where s': "divideBy k i dstA cntA s1 = Inr s'"
    and v2: "\<forall>a<k. \<forall>v. at_get (dstA a) i s1 = Inr v \<longrightarrow>
             at_get (dstA a) i s' = Inr (if 0 < nA then v / real_of_int nA else v)"
    by blast
  have kS: "keeps (at_get (dstS sc) i) (divideBy k i dstA cntA)"
    by (rule keeps_divideBy) (rule at_get_cong, rule A5)
  have "at_get (dstS sc) i s' = at_get (dstS sc) i s1" using kS s' by (simp add: keeps_def)
  with v1 sc vS have "at_get (dstS sc) i s' = Inr (if 0 < nS then vS / real_of_int nS else vS)"
    by simp
  moreover from v2 sc vA A_same
  have "at_get (dstA sc) i s' = Inr (if 0 < nA then vA / real_of_int nA else vA)" by simp
  moreover have "seqE [divideBy k i dstS cntS, divideBy k i dstA cntA] s = Inr s'"
    using s1 s' unfolding seqE_two by blast
  ultimately show ?thesis by blast
qed

lemma averagePerTime_divideBy:
  "averagePerTime k i =
     seqE [divideBy k i (\<lambda>sc. perGroupPerTime (colScalarsSurface sc)) (perGroupPerTime colNumTopVoxelsR),
           divideBy k i (\<lambda>sc. perGroupPerTime (colScalarsAverage sc)) (perGroupPerTime colNumVoxelsR)]"
  unfolding averagePerTime_def divideBy_def by (rule refl)

lemma averagePerTime_values:
  assumes ok: "framesOk n T k s" and i: "i < T * n" and sc: "sc < k"
    and nTop: "at_get (perGroupPerTime colNumTopVoxelsR) i s = Inr nTop"
    and nVox: "at_get (perGroupPerTime colNumVoxelsR) i s = Inr nVox"
    and vS: "at_get (perGroupPerTime (colScalarsSurface sc)) i s = Inr surfSum"
    and vA: "at_get (perGroupPerTime (colScalarsAverage sc)) i s = Inr avgSum"
  shows "\<exists>s'. averagePerTime k i s = Inr s' \<and>
     at_get (perGroupPerTime (colScalarsSurface sc)) i s' =
       Inr (if 0 < nTop then surfSum / real_of_int nTop else surfSum) \<and>
     at_get (perGroupPerTime (colScalarsAverage sc)) i s' =
       Inr (if 0 < nVox then avgSum / real_of_int nVox else avgSum)"
proof -
  have allS: "\<forall>a<k. \<exists>v. at_get (perGroupPerTime (colScalarsSurface a)) i s = Inr v"
    using goodCol_at_get [OF goodCol_scalars(2) ok i] by blast
  have allA: "\<forall>a<k. \<exists>v. at_get (perGroupPerTime (colScalarsAverage a)) i s = Inr v"
    using goodCol_at_get [OF goodCol_scalars(4) ok i] by blast
  show ?thesis
    unfolding averagePerTime_divideBy
    by (rule two_divisions
        [where dstS = "\<lambda>sc. perGroupPerTime (colScalarsSurface sc)"
           and dstA = "\<lambda>sc. perGroupPerTime (colScalarsAverage sc)"
           and cntS = "perGroupPerTime colNumTopVoxelsR"
           and cntA = "perGroupPerTime colNumVoxelsR"])
       (erule scalar_laws_time | rule scalar_laws_time nTop nVox sc vS vA allS allA)+
qed

lemma finalGroup_divideBy:
  "finalGroup k grp s =
     bindE (at_set (perGroup colGroupR) grp (int grp) s) (\<lambda>s.
       bindE (ix_get colLifeTimeR grp s) (\<lambda>lifeTime.
         if lifeTime = 0 then Inr s
         else seqE [
           at_mod (perGroup colAspectRatioR) grp (\<lambda>v. fdiv v (Finite (real_of_int lifeTime))),
           at_mod (perGroup colAvgRadiusR) grp (\<lambda>v. v / real_of_int lifeTime),
           divideBy k grp (\<lambda>sc. perGroup (colScalarsSurface sc)) (perGroup colNumTopVoxelsR),
           divideBy k grp (\<lambda>sc. perGroup (colScalarsAverage sc)) (perGroup colNumVoxelsR)] s))"
  unfolding finalGroup_def divideBy_def by (rule refl)

lemma summaryInputs_reads:
  assumes "summaryInputs s1 = summaryInputs s"
  shows "ix_get colLifeTimeR g s1 = ix_get colLifeTimeR g s"
    "at_get (perGroup colNumTopVoxelsR) g s1 = at_get (perGroup colNumTopVoxelsR) g s"
    "at_get (perGroup colNumVoxelsR) g s1 = at_get (perGroup colNumVoxelsR) g s"
    "at_get (perGroup (colScalarsSurface a)) g s1 = at_get (perGroup (colScalarsSurface a)) g s"
    "at_get (perGroup (colScalarsAverage a)) g s1 = at_get (perGroup (colScalarsAverage a)) g s"
  using assms by (simp_all add: summaryInputs_def at_get_def ix_get_def lens_defs)

lemma finalGroup_values:
  assumes ok: "framesOk n T k s" and g: "grp < n" and sc: "sc < k"
    and life: "ix_get colLifeTimeR grp s = Inr lifeTime"
    and nTop: "at_get (perGroup colNumTopVoxelsR) grp s = Inr nTop"
    and nVox: "at_get (perGroup colNumVoxelsR) grp s = Inr nVox"
    and vS: "at_get (perGroup (colScalarsSurface sc)) grp s = Inr surfSum"
    and vA: "at_get (perGroup (colScalarsAverage sc)) grp s = Inr avgSum"
  shows "\<exists>s'. finalGroup k grp s = Inr s' \<and>
     at_get (perGroup (colScalarsSurface sc)) grp s' =
       Inr (if lifeTime \<noteq> 0 \<and> 0 < nTop then surfSum / real_of_int nTop else surfSum) \<and>
     at_get (perGroup (colScalarsAverage sc)) grp s' =
       Inr (if lifeTime \<noteq> 0 \<and> 0 < nVox then avgSum / real_of_int nVox else avgSum)"
proof -
  let ?P = "framesOk n T k"
  have k1: "keeps summaryInputs (at_set (perGroup colGroupR) grp (int grp))"
    by (rule keeps_at_set) (simp add: summaryInputs_def lens_defs)
  from succeeds_at_set [OF goodCol_pairs(1) g, where v = "int grp"] ok
  obtain s1 where s1: "at_set (perGroup colGroupR) grp (int grp) s = Inr s1" "?P s1"
    unfolding succeeds_def by blast
  from k1 s1(1) have in1: "summaryInputs s1 = summaryInputs s" unfolding keeps_def by blast
  note r1 = summaryInputs_reads [OF in1]
  show ?thesis
  proof (cases "lifeTime = 0")
    case True
    then have "finalGroup k grp s = Inr s1"
      using s1(1) life r1(1) [of grp] by (simp add: finalGroup_divideBy bindE_def)
    then show ?thesis using True r1(4) [of sc grp] r1(5) [of sc grp] vS vA by simp
  next
    case False
    let ?a1 = "at_mod (perGroup colAspectRatioR) grp (\<lambda>v. fdiv v (Finite (real_of_int lifeTime)))"
    let ?a2 = "at_mod (perGroup colAvgRadiusR) grp (\<lambda>v. v / real_of_int lifeTime)"
    have k2: "keeps summaryInputs ?a1"
      by (rule keeps_at_mod) (simp add: summaryInputs_def lens_defs)
    have k3: "keeps summaryInputs ?a2"
      by (rule keeps_at_mod) (simp add: summaryInputs_def lens_defs)
    from succeeds_at_mod [OF goodCol_pairs(7) g] s1(2)
    obtain s2 where s2: "?a1 s1 = Inr s2" "?P s2" unfolding succeeds_def by blast
    from succeeds_at_mod [OF goodCol_pairs(9) g] s2(2)
    obtain s3 where s3: "?a2 s2 = Inr s3" "?P s3" unfolding succeeds_def by blast
    from k2 k3 s2(1) s3(1) in1 have in3: "summaryInputs s3 = summaryInputs s"
      unfolding keeps_def by metis
    note r3 = summaryInputs_reads [OF in3]
    have allS: "\<forall>a<k. \<exists>v. at_get (perGroup (colScalarsSurface a)) grp s3 = Inr v"
      using goodCol_at_get [OF goodCol_scalars(1) s3(2) g] by blast
    have allA: "\<forall>a<k. \<exists>v. at_get (perGroup (colScalarsAverage a)) grp s3 = Inr v"
      using goodCol_at_get [OF goodCol_scalars(3) s3(2) g] by blast
    have nTop3: "at_get (perGroup colNumTopVoxelsR) grp s3 = Inr nTop" using r3(2) nTop by simp
    have nVox3: "at_get (perGroup colNumVoxelsR) grp s3 = Inr nVox" using r3(3) nVox by simp
    have vS3: "at_get (perGroup (colScalarsSurface sc)) grp s3 = Inr surfSum"
      using r3(4) vS by simp
    have vA3: "at_get (perGroup (colScalarsAverage sc)) grp s3 = Inr avgSum"
      using r3(5) vA by simp
    have "\<exists>s'. seqE [divideBy k grp (\<lambda>sc. perGroup (colScalarsSurface sc)) (perGroup colNumTopVoxelsR),
                      divideBy k grp (\<lambda>sc. perGroup (colScalarsAverage sc)) (perGroup colNumVoxelsR)] s3
                = Inr s' \<and>
          at_get (perGroup (colScalarsSurface sc)) grp s' =
            Inr (if 0 < nTop then surfSum / real_of_int nTop else surfSum) \<and>
          at_get (perGroup (colScalarsAverage sc)) grp s' =
            Inr (if 0 < nVox then avgSum / real_of_int nVox else avgSum)"
      by (rule two_divisions
          [where dstS = "\<lambda>sc. perGroup (colScalarsSurface sc)"
             and dstA = "\<lambda>sc. perGroup (colScalarsAverage sc)"
             and cntS = "perGroup colNumTopVoxelsR"
             and cntA = "perGroup colNumVoxelsR"])
         (erule scalar_laws_group | rule scalar_laws_group nTop3 nVox3 sc vS3 vA3 allS allA)+
    then obtain s' where
      both: "seqE [divideBy k grp (\<lambda>sc. perGroup (colScalarsSurface sc)) (perGroup colNumTopVoxelsR),
                    divideBy k grp (\<lambda>sc. perGroup (colScalarsAverage sc)) (perGroup colNumVoxelsR)] s3
              = Inr s'"
      and vals: "at_get (perGroup (colScalarsSurface sc)) grp s' =
            Inr (if 0 < nTop then surfSum / real_of_int nTop else surfSum)"
          "at_get (perGroup (colScalarsAverage sc)) grp s' =
            Inr (if 0 < nVox then avgSum / real_of_int nVox else avgSum)"
      by blast
    have "seqE [?a1, ?a2,
            divideBy k grp (\<lambda>sc. perGroup (colScalarsSurface sc)) (perGroup colNumTopVoxelsR),
            divideBy k grp (\<lambda>sc. perGroup (colScalarsAverage sc)) (perGroup colNumVoxelsR)] s1
          = Inr s'"
      using s2(1) s3(1) both unfolding seqE_Cons_Inr [of ?a1] seqE_Cons_Inr [of ?a2] by blast
    then have "finalGroup k grp s = Inr s'"
      using s1(1) life r1(1) [of grp] False
      by (simp add: finalGroup_divideBy bindE_def del: seqE.simps)
    then show ?thesis using vals False by simp
  qed
qed

text \<open>
  C7 as stated, evaluated on the run of one timestep. Group 0 owns two voxels with the
  scalar values 6 and 2, so its accumulated sum is 8, and its per-group voxel count ends
  at 4. Its life time is 0, the final pass skips it, and the per-group average field
  stays 8: neither 8 / 4 nor 8 / 2.
\<close>

theorem lifetime_zero_keeps_sum:
  "map_option (ix_get colLifeTimeR 0) (tablesOf (process 0 False (exRun [exMask] exVortices)))
     = Some (Inr 0) \<and>
   map_option (at_get (perGroup colNumVoxelsR) 0)
     (tablesOf (process 0 False (exRun [exMask] exVortices))) = Some (Inr 4) \<and>
   map_option (at_get (perGroup (colScalarsAverage 0)) 0)
     (tablesOf (process 0 False (exRun [exMask] exVortices))) = Some (Inr 8) \<and>
   (8::real) \<noteq> 8 / real_of_int 4 \<and> (8::real) \<noteq> 8 / 2"
  using single_step_run
  by (cases "tablesOf (process 0 False (exRun [exMask] exVortices))")
     (simp_all add: at_get_def ix_get_def lens_defs)

text \<open>
  C7, amended. On allocated frames both division steps return normally. In the
  per-timestep finalize pass each per-time average field becomes its accumulated value
  divided by the per-time count of its row when that count is greater than zero, and is
  left as it is when the count is zero (surface sums by the surface-voxel count,
  volumetric sums by the voxel count). In the final per-group pass the same holds for a
  group whose life time is not zero; a group whose life time is zero is skipped and keeps
  its accumulated sums, whatever its counts.
\<close>

theorem averages_divided_where_counted:
  assumes "framesOk numGroups numTimeSteps numScalars s"
    and "grp < numGroups" "time < numTimeSteps" "sc < numScalars"
    and "at_get (perGroupPerTime colNumTopVoxelsR) (numGroups * time + grp) s = Inr nTopT"
    and "at_get (perGroupPerTime colNumVoxelsR) (numGroups * time + grp) s = Inr nVoxT"
    and "at_get (perGroupPerTime (colScalarsSurface sc)) (numGroups * time + grp) s = Inr surfT"
    and "at_get (perGroupPerTime (colScalarsAverage sc)) (numGroups * time + grp) s = Inr avgT"
    and "ix_get colLifeTimeR grp s = Inr lifeTime"
    and "at_get (perGroup colNumTopVoxelsR) grp s = Inr nTopG"
    and "at_get (perGroup colNumVoxelsR) grp s = Inr nVoxG"
    and "at_get (perGroup (colScalarsSurface sc)) grp s = Inr surfG"
    and "at_get (perGroup (colScalarsAverage sc)) grp s = Inr avgG"
  shows "(\<exists>s'. averagePerTime numScalars (numGroups * time + grp) s = Inr s' \<and>
            at_get (perGroupPerTime (colScalarsSurface sc)) (numGroups * time + grp) s' =
              Inr (if 0 < nTopT then surfT / real_of_int nTopT else surfT) \<and>
            at_get (perGroupPerTime (colScalarsAverage sc)) (numGroups * time + grp) s' =
              Inr (if 0 < nVoxT then avgT / real_of_int nVoxT else avgT)) \<and>
         (\<exists>s'. finalGroup numScalars grp s = Inr s' \<and>
            at_get (perGroup (colScalarsSurface sc)) grp s' =
              Inr (if lifeTime \<noteq> 0 \<and> 0 < nTopG then surfG / real_of_int nTopG else surfG) \<and>
            at_get (perGroup (colScalarsAverage sc)) grp s' =
              Inr (if lifeTime \<noteq> 0 \<and> 0 < nVoxG then avgG / real_of_int nVoxG else avgG))"
proof
  have i: "numGroups * time + grp < numTimeSteps * numGroups"
    using assms(2,3) by (rule idx_bound)
  from averagePerTime_values [OF assms(1) i assms(4) assms(5) assms(6) assms(7) assms(8)]
  show "\<exists>s'. averagePerTime numScalars (numGroups * time + grp) s = Inr s' \<and>
            at_get (perGroupPerTime (colScalarsSurface sc)) (numGroups * time + grp) s' =
              Inr (if 0 < nTopT then surfT / real_of_int nTopT else surfT) \<and>
            at_get (perGroupPerTime (colScalarsAverage sc)) (numGroups * time + grp) s' =
              Inr (if 0 < nVoxT then avgT / real_of_int nVoxT else avgT)" .
  from finalGroup_values [OF assms(1) assms(2) assms(4) assms(9) assms(10) assms(11)
      assms(12) assms(13)]
  show "\<exists>s'. finalGroup numScalars grp s = Inr s' \<and>
            at_get (perGroup (colScalarsSurface sc)) grp s' =
              Inr (if lifeTime \<noteq> 0 \<and> 0 < nTopG then surfG / real_of_int nTopG else surfG) \<and>
            at_get (perGroup (colScalarsAverage sc)) grp s' =
              Inr (if lifeTime \<noteq> 0 \<and> 0 < nVoxG then avgG / real_of_int nVoxG else avgG)" .
qed

text \<open>
  On the frames \<open>exSummed\<close>, group 0: no surface voxels, so the surface fields keep 5;
  the per-time average becomes 6 / 3, the per-group average 6 / 2.
\<close>

theorem averages_divided_where_counted_witness:
  "framesOk 2 1 1 exSummed \<and>
   bindE (averagePerTime 1 0 exSummed) (at_get (perGroupPerTime (colScalarsSurface 0)) 0) = Inr 5 \<and>
   bindE (averagePerTime 1 0 exSummed) (at_get (perGroupPerTime (colScalarsAverage 0)) 0) = Inr 2 \<and>
   bindE (finalGroup 1 0 exSummed) (at_get (perGroup (colScalarsSurface 0)) 0) = Inr 5 \<and>
   bindE (finalGroup 1 0 exSummed) (at_get (perGroup (colScalarsAverage 0)) 0) = Inr 3"
proof -
  have ok: "framesOk 2 1 1 exSummed"
    by (simp add: framesOk_def pairOk_def scalarOk_def exSummed_def createColumns_def
        makeColumn_def Let_def)
  have reads:
    "at_get (perGroupPerTime colNumTopVoxelsR) (2 * 0 + 0) exSummed = Inr 0"
    "at_get (perGroupPerTime colNumVoxelsR) (2 * 0 + 0) exSummed = Inr 3"
    "at_get (perGroupPerTime (colScalarsSurface 0)) (2 * 0 + 0) exSummed = Inr 5"
    "at_get (perGroupPerTime (colScalarsAverage 0)) (2 * 0 + 0) exSummed = Inr 6"
    "ix_get colLifeTimeR 0 exSummed = Inr 1"
    "at_get (perGroup colNumTopVoxelsR) 0 exSummed = Inr 0"
    "at_get (perGroup colNumVoxelsR) 0 exSummed = Inr 2"
    "at_get (perGroup (colScalarsSurface 0)) 0 exSummed = Inr 5"
    "at_get (perGroup (colScalarsAverage 0)) 0 exSummed = Inr 6"
    by (simp_all add: at_get_def ix_get_def lens_defs exSummed_def createColumns_def
        makeColumn_def Let_def)
  from averages_divided_where_counted
    [where numGroups = 2 and numTimeSteps = 1 and numScalars = 1 and s = exSummed
       and grp = 0 and time = 0 and sc = 0, OF ok _ _ _ reads]
  show ?thesis using ok by (auto simp: bindE_def)
qed

text \<open>
  C9, evaluated on the run of one timestep. With the radii 2 and 1 the field holds the
  quotient 2, with the radii 2 and 0 it holds NaN. With the radii 1 and \<open>2^-130\<close> the
  quotient \<open>2^130\<close> is a finite \<open>double\<close>, so the test with \<open>std::isfinite\<close> lets
  it pass, and the \<open>float\<close> column receives an infinity: the field is neither NaN nor
  the quotient.
\<close>

theorem large_ratio_stored_as_infinity:
  "map_option (at_get (perGroupPerTime colAspectRatioR) 0)
     (tablesOf (process 0 False (exRun [exMask] exVortices))) = Some (Inr (Finite 2)) \<and>
   map_option (at_get (perGroupPerTime colAspectRatioR) 0)
     (tablesOf (process 0 False (exRun [exMask] exFlat))) = Some (Inr NaN) \<and>
   maxRadius (hd (groups exThin ! 0)) / minRadius (hd (groups exThin ! 0)) = 2 ^ 130 \<and>
   isfinite (to_double (fdiv (Finite (maxRadius (hd (groups exThin ! 0))))
                             (Finite (minRadius (hd (groups exThin ! 0)))))) \<and>
   map_option (at_get (perGroupPerTime colAspectRatioR) 0)
     (tablesOf (process 0 False (exRun [exMask] exThin))) = Some (Inr PosInf)"
  by (simp add: run_defs ex_defs upt_rec sqrt_25 replicate_numeral)

end
